theory Spec2Isabelle
  imports Complex_Main "HOL-Library.Sublist" "HOL-Library.Log_Nat"
begin

section \<open>Python values used by \<open>sphinxcontrib/drawio.py\<close>\<close>

text \<open>
  The module is one Python file. Its core is \<open>drawio_export\<close>, which derives a cache
  directory from the export options, reuses an artifact that is newer than its source,
  and otherwise runs the draw.io binary. Strings are byte lists, Python's unbounded
  integers are \<open>int\<close>, and every exception the function can leave with is a value of
  \<open>error\<close>.
\<close>

datatype error =
    ValueError
  | OverflowError
  | ZeroDivisionError
  | FileNotFoundError
  | OSError string
  | DrawIOError string

subsection \<open>\<open>str\<close> of an integer and \<open>str.join\<close>\<close>

definition digit_char :: "nat \<Rightarrow> char" where
  "digit_char d = ''0123456789'' ! d"

function str_nat :: "nat \<Rightarrow> string" where
  "str_nat n = (if n < 10 then [digit_char n] else str_nat (n div 10) @ [digit_char (n mod 10)])"
  by pat_completeness auto
termination
  by (relation "measure id") auto

declare str_nat.simps [simp del]

definition str_int :: "int \<Rightarrow> string" where
  "str_int i = (if i < 0 then CHR ''-'' # str_nat (nat (- i)) else str_nat (nat i))"

text \<open>\<open>str(None)\<close> is \<open>'None'\<close>; \<open>options.get(option)\<close> gives \<open>None\<close> for a missing key.\<close>

definition str_int_option :: "int option \<Rightarrow> string" where
  "str_int_option v = (case v of None \<Rightarrow> ''None'' | Some i \<Rightarrow> str_int i)"

fun join_str :: "string \<Rightarrow> string list \<Rightarrow> string" where
  "join_str sep [] = []"
| "join_str sep [x] = x"
| "join_str sep (x # y # ys) = x @ sep @ join_str sep (y # ys)"

subsection \<open>\<open>pathlib\<close> on a POSIX host\<close>

text \<open>
  A pure POSIX path is its root (\<open>''\<close>, \<open>/\<close> or \<open>//\<close>) and its components. Parsing
  splits at \<open>/\<close> and drops empty and \<open>.\<close> components; \<open>..\<close> is kept, as pathlib
  keeps it.
\<close>

record ppath =
  p_root :: string
  p_parts :: "string list"

fun split_sep :: "string \<Rightarrow> string list" where
  "split_sep [] = [[]]"
| "split_sep (c # cs) =
     (if c = CHR ''/'' then [] # split_sep cs
      else (case split_sep cs of
              [] \<Rightarrow> [[c]]
            | w # ws \<Rightarrow> (c # w) # ws))"

definition parse_root :: "string \<Rightarrow> string" where
  "parse_root s =
     (if take 2 s = ''//'' \<and> take 3 s \<noteq> ''///'' then ''//''
      else if take 1 s = ''/'' then ''/''
      else '''')"

definition Path :: "string \<Rightarrow> ppath" where
  "Path s = \<lparr>p_root = parse_root s,
             p_parts = filter (\<lambda>p. p \<noteq> '''' \<and> p \<noteq> ''.'') (split_sep s)\<rparr>"

definition path_str :: "ppath \<Rightarrow> string" where
  "path_str p =
     (if p_root p = '''' \<and> p_parts p = [] then ''.''
      else p_root p @ join_str ''/'' (p_parts p))"

text \<open>The operator \<open>/\<close>: an absolute right operand replaces the left one.\<close>

definition joinpath :: "ppath \<Rightarrow> ppath \<Rightarrow> ppath" where
  "joinpath p q =
     (if p_root q \<noteq> '''' then q
      else \<lparr>p_root = p_root p, p_parts = p_parts p @ p_parts q\<rparr>)"

text \<open>
  \<open>relative_to\<close> compares components only; it raises \<open>ValueError\<close> when the other
  path is not a prefix.
\<close>

definition relative_to :: "ppath \<Rightarrow> ppath \<Rightarrow> error + ppath" where
  "relative_to p other =
     (if p_root p = p_root other \<and> prefix (p_parts other) (p_parts p)
      then Inr \<lparr>p_root = '''', p_parts = drop (length (p_parts other)) (p_parts p)\<rparr>
      else Inl ValueError)"

definition path_name :: "ppath \<Rightarrow> string" where
  "path_name p = (if p_parts p = [] then '''' else last (p_parts p))"

text \<open>
  \<open>name.rfind('.')\<close> as the number of characters before the last dot, \<open>None\<close>
  for \<open>-1\<close>.
\<close>

definition rfind_dot :: "string \<Rightarrow> nat option" where
  "rfind_dot name =
     (if CHR ''.'' \<in> set name
      then Some (length name - 1 - length (takeWhile (\<lambda>c. c \<noteq> CHR ''.'') (rev name)))
      else None)"

definition name_suffix :: "string \<Rightarrow> string" where
  "name_suffix name =
     (case rfind_dot name of
        None \<Rightarrow> ''''
      | Some i \<Rightarrow> if 0 < i \<and> i < length name - 1 then drop i name else '''')"

definition path_stem :: "ppath \<Rightarrow> string" where
  "path_stem p =
     (let name = path_name p in
      case rfind_dot name of
        None \<Rightarrow> name
      | Some i \<Rightarrow> if 0 < i \<and> i < length name - 1 then take i name else name)"

definition with_suffix :: "ppath \<Rightarrow> string \<Rightarrow> error + ppath" where
  "with_suffix p sfx =
     (if CHR ''/'' \<in> set sfx then Inl ValueError
      else if (sfx \<noteq> '''' \<and> take 1 sfx \<noteq> ''.'') \<or> sfx = ''.'' then Inl ValueError
      else let name = path_name p in
        if name = '''' then Inl ValueError
        else let old_suffix = name_suffix name;
                 name' = (if old_suffix = '''' then name @ sfx
                          else take (length name - length old_suffix) name @ sfx)
             in Inr (p\<lparr>p_parts := butlast (p_parts p) @ [name']\<rparr>))"

subsection \<open>True division of integers\<close>

text \<open>
  \<open>a / b\<close> on Python integers is the binary64 number nearest to the exact quotient,
  ties to even; it raises \<open>OverflowError\<close> beyond the largest finite float. A finite
  float is kept as \<open>PyFloat m e\<close>, the number \<open>m * 2 ^ e\<close>, with \<open>m\<close> odd (or both
  zero), so that equal numbers are equal values.
\<close>

datatype pyfloat = PyFloat int int

function reduce_float :: "int \<Rightarrow> int \<Rightarrow> pyfloat" where
  "reduce_float m e =
     (if m = 0 then PyFloat 0 0
      else if even m then reduce_float (m div 2) (e + 1)
      else PyFloat m e)"
  by pat_completeness auto
termination
  by (relation "measure (\<lambda>(m, e). nat \<bar>m\<bar>)") auto

declare reduce_float.simps [simp del]

definition round_half_even :: "int \<Rightarrow> int \<Rightarrow> int" where
  "round_half_even p q =
     (let d = p div q; r = p mod q in
      if 2 * r < q then d
      else if q < 2 * r then d + 1
      else if even d then d else d + 1)"

definition scaled_quotient :: "int \<Rightarrow> int \<Rightarrow> int \<Rightarrow> int \<times> int" where
  "scaled_quotient n d e =
     (if e \<le> 0 then (n * 2 ^ nat (- e), d) else (n, d * 2 ^ nat e))"

text \<open>
  For positive \<open>n\<close> and \<open>d\<close>: the exponent \<open>e\<close> with
  \<open>2^52 \<le> n / (d * 2^e) < 2^53\<close>, not below the subnormal exponent, and the
  quotient rounded to an integer at that exponent.
\<close>

definition float_exponent :: "int \<Rightarrow> int \<Rightarrow> int" where
  "float_exponent n d =
     (let e0 = bitlen n - bitlen d - 53 in
      case scaled_quotient n d e0 of
        (p, q) \<Rightarrow> max (if 2 ^ 53 * q \<le> p then e0 + 1 else e0) (- 1074))"

definition float_mantissa :: "int \<Rightarrow> int \<Rightarrow> int \<Rightarrow> int" where
  "float_mantissa n d e = (case scaled_quotient n d e of (p, q) \<Rightarrow> round_half_even p q)"

definition int_truediv :: "int \<Rightarrow> int \<Rightarrow> error + pyfloat" where
  "int_truediv a b =
     (if b = 0 then Inl ZeroDivisionError
      else if a = 0 then Inr (PyFloat 0 0)
      else
        let e = float_exponent \<bar>a\<bar> \<bar>b\<bar>;
            m = float_mantissa \<bar>a\<bar> \<bar>b\<bar> e
        in if 971 < e \<or> (e = 971 \<and> m = 2 ^ 53) then Inl OverflowError
           else Inr (reduce_float (if (a < 0) = (b < 0) then m else - m) e))"

definition float_one :: pyfloat where
  "float_one = PyFloat 1 0"

section \<open>The host: interpreter, operating system and file system\<close>

text \<open>
  What the module reads from its surroundings is a record: the platform name, the
  process environment, \<open>repr\<close> and \<open>float\<close> on floats, the SHA-1 hex digest, how
  \<open>str.format\<close> prints a \<open>bytes\<close> value, and the two ways it starts processes. The
  draw.io binary is a function from its argument vector, its environment and the files
  present to an outcome and the files present afterwards. The world records every call
  of \<open>subprocess.run\<close> and \<open>subprocess.Popen\<close> with its argument vector and
  environment, whether or not the process could be started.
\<close>

type_synonym environ = "string \<rightharpoonup> string"

text \<open>A file that exists is mapped to its \<open>st_mtime\<close>.\<close>

type_synonym filesystem = "string \<rightharpoonup> rat"

datatype run_outcome =
    LaunchFailed string
  | Completed int string string

datatype popen_outcome =
    PopenFailed string
  | PopenStarted int "int option" string string

record host =
  platform_system :: string
  os_environ :: environ
  float_repr :: "pyfloat \<Rightarrow> string"
  float_parse :: "string \<Rightarrow> pyfloat option"
  sha1_hexdigest :: "string \<Rightarrow> string"
  bytes_str :: "string \<Rightarrow> string"
  subprocess_run :: "string list \<Rightarrow> environ \<Rightarrow> filesystem \<Rightarrow> run_outcome \<times> filesystem"
  subprocess_Popen :: "string list \<Rightarrow> popen_outcome"

record world =
  files :: filesystem
  dirs :: "string set"
  proc_calls :: "(string list \<times> environ) list"
  info_log :: "string list"

section \<open>Configuration and directive options\<close>

datatype headless_setting = HeadlessStr string | HeadlessBool bool

record sphinx_config =
  drawio_default_export_scale :: int
  drawio_default_transparency :: bool
  drawio_binary_path :: "string option"
  drawio_headless :: headless_setting
  drawio_no_sandbox :: bool
  xvfb_pid :: "int option"

record builder =
  config :: sphinx_config
  srcdir :: string

text \<open>
  The directive's option dictionary, one field per key of \<open>DrawIOBase.option_spec\<close>;
  \<open>None\<close> is a key the document did not give.
\<close>

record options =
  opt_format :: "string option"
  opt_page_index :: "int option"
  opt_transparency :: "bool option"
  opt_export_scale :: "int option"
  opt_export_width :: "int option"
  opt_export_height :: "int option"

definition X_DISPLAY_NUMBER :: int where
  "X_DISPLAY_NUMBER = 1"

definition OPTIONAL_UNIQUES :: "(string \<times> string) list" where
  "OPTIONAL_UNIQUES = [(''export-height'', ''height''), (''export-width'', ''width'')]"

text \<open>\<open>options.get(option)\<close> for the keys of \<open>OPTIONAL_UNIQUES\<close>.\<close>

definition options_get :: "options \<Rightarrow> string \<Rightarrow> int option" where
  "options_get opts option =
     (if option = ''export-height'' then opt_export_height opts
      else if option = ''export-width'' then opt_export_width opts
      else None)"

definition nl :: string where
  "nl = [CHR 0x0A]"

section \<open>\<open>is_headless\<close> and \<open>on_config_inited\<close>\<close>

text \<open>
  \<open>is_headless\<close> returns \<open>None\<close> when the setting is neither \<open>"auto"\<close> nor a
  boolean; \<open>os.getenv("DISPLAY")\<close> is tested for truth, so an empty value counts as
  no display.
\<close>

definition is_headless :: "host \<Rightarrow> sphinx_config \<Rightarrow> bool option" where
  "is_headless h c =
     (case drawio_headless c of
        HeadlessStr s \<Rightarrow>
          if s = ''auto'' then
            (if platform_system h \<noteq> ''Linux'' then Some False
             else (case os_environ h ''DISPLAY'' of
                     Some v \<Rightarrow> if v \<noteq> '''' then Some False else Some True
                   | None \<Rightarrow> Some True))
          else None
      | HeadlessBool b \<Rightarrow> Some b)"

definition display_name :: string where
  "display_name = CHR '':'' # str_int X_DISPLAY_NUMBER"

definition xvfb_command :: "string list" where
  "xvfb_command = [''Xvfb'', display_name, ''-screen'', ''0'', ''1280x768x16'']"

definition on_config_inited ::
  "host \<Rightarrow> sphinx_config \<Rightarrow> world \<Rightarrow> (error + unit) \<times> sphinx_config \<times> world" where
  "on_config_inited h c w =
     (if is_headless h c = Some True then
        (case subprocess_Popen h xvfb_command of
           PopenFailed msg \<Rightarrow>
             (Inl (OSError msg), c,
              w\<lparr>proc_calls := proc_calls w @ [(xvfb_command, os_environ h)]\<rparr>)
         | PopenStarted pid poll out err \<Rightarrow>
             let c' = c\<lparr>xvfb_pid := Some pid\<rparr>;
                 w' = w\<lparr>proc_calls := proc_calls w @ [(xvfb_command, os_environ h)]\<rparr>
             in if poll \<noteq> None
                then (Inl (OSError (''Failed to start Xvfb process'' @ nl @ ''[stdout]'' @ nl
                                    @ bytes_str h out @ nl @ ''[stderr]'' @ bytes_str h err)),
                      c', w')
                else (Inr (), c', w'))
      else (Inr (), c,
            w\<lparr>info_log := info_log w @ [''running in non-headless mode, not starting Xvfb'']\<rparr>))"

section \<open>\<open>drawio_export\<close>\<close>

subsection \<open>The cache key (source lines 135 to 158)\<close>

definition page_index :: "options \<Rightarrow> string" where
  "page_index opts = str_int (case opt_page_index opts of None \<Rightarrow> 0 | Some n \<Rightarrow> n)"

text \<open>\<open>options.get("format") or default_output_format\<close>: an empty string is false.\<close>

definition output_format :: "options \<Rightarrow> string \<Rightarrow> string" where
  "output_format opts default_output_format =
     (case opt_format opts of
        None \<Rightarrow> default_output_format
      | Some f \<Rightarrow> if f = '''' then default_output_format else f)"

definition scale_value :: "builder \<Rightarrow> options \<Rightarrow> error + pyfloat" where
  "scale_value b opts =
     int_truediv (case opt_export_scale opts of
                    None \<Rightarrow> drawio_default_export_scale (config b)
                  | Some s \<Rightarrow> s) 100"

definition transparent :: "builder \<Rightarrow> options \<Rightarrow> bool" where
  "transparent b opts =
     (case opt_transparency opts of
        None \<Rightarrow> drawio_default_transparency (config b)
      | Some t \<Rightarrow> t)"

definition unique_values :: "ppath \<Rightarrow> string \<Rightarrow> string \<Rightarrow> bool \<Rightarrow> options \<Rightarrow> string list" where
  "unique_values input_relpath page scale is_transparent opts =
     [path_str input_relpath, page, scale, if is_transparent then ''true'' else ''false'']
     @ map (\<lambda>option. str_int_option (options_get opts option)) (map fst OPTIONAL_UNIQUES)"

record derived =
  d_scale :: string
  d_input_relpath :: ppath
  d_hash_key :: string
  d_sha_key :: string

definition derive_key :: "host \<Rightarrow> builder \<Rightarrow> options \<Rightarrow> string \<Rightarrow> error + derived" where
  "derive_key h b opts in_filename =
     (case scale_value b opts of
        Inl e \<Rightarrow> Inl e
      | Inr x \<Rightarrow>
          let scale = float_repr h x in
          (case relative_to (Path in_filename) (Path (srcdir b)) of
             Inl e \<Rightarrow> Inl e
           | Inr input_relpath \<Rightarrow>
               let hash_key = join_str nl
                     (unique_values input_relpath (page_index opts) scale (transparent b opts) opts)
               in Inr \<lparr>d_scale = scale, d_input_relpath = input_relpath,
                       d_hash_key = hash_key, d_sha_key = sha1_hexdigest h hash_key\<rparr>))"


subsection \<open>The cache entry and the freshness test (lines 159 to 167)\<close>

definition export_dir :: "builder \<Rightarrow> string \<Rightarrow> ppath" where
  "export_dir b sha_key =
     joinpath (joinpath (Path (srcdir b)) (Path ''.drawio'')) (Path sha_key)"

text \<open>\<open>ensuredir\<close> creates the directory if it is missing; the leaf is recorded.\<close>

definition ensuredir :: "ppath \<Rightarrow> world \<Rightarrow> world" where
  "ensuredir p w = w\<lparr>dirs := insert (path_str p) (dirs w)\<rparr>"

text \<open>
  \<open>export_path.exists() and export_path.stat().st_mtime > input_abspath.stat().st_mtime\<close>:
  the source is only looked at when the artifact exists, and \<open>stat\<close> on a missing
  source raises.
\<close>

definition is_fresh :: "filesystem \<Rightarrow> ppath \<Rightarrow> ppath \<Rightarrow> error + bool" where
  "is_fresh fs export_path input_abspath =
     (case fs (path_str export_path) of
        None \<Rightarrow> Inr False
      | Some t_artifact \<Rightarrow>
          (case fs (path_str input_abspath) of
             None \<Rightarrow> Inl FileNotFoundError
           | Some t_source \<Rightarrow> Inr (t_source < t_artifact)))"

subsection \<open>The argument vector (lines 169 to 208)\<close>

definition windows_binary :: string where
  "windows_binary = ''C:'' @ [CHR 0x5C] @ ''Program Files'' @ [CHR 0x5C] @ ''draw.io''
                    @ [CHR 0x5C] @ ''draw.io.exe''"

definition binary_path :: "host \<Rightarrow> builder \<Rightarrow> string" where
  "binary_path h b =
     (let fallback = (if platform_system h = ''Windows'' then windows_binary
                      else ''/opt/draw.io/drawio'')
      in case drawio_binary_path (config b) of
           None \<Rightarrow> fallback
         | Some p \<Rightarrow> if p = '''' then fallback else p)"

text \<open>
  \<open>float(scale)\<close> is only evaluated for the pdf format; it raises \<open>ValueError\<close> on a
  string that is no number.
\<close>

definition scale_args :: "host \<Rightarrow> string \<Rightarrow> string \<Rightarrow> error + string list" where
  "scale_args h fmt scale =
     (if fmt = ''pdf'' then
        (case float_parse h scale of
           None \<Rightarrow> Inl ValueError
         | Some x \<Rightarrow> if x = float_one then Inr [] else Inr [''--scale'', scale])
      else Inr [''--scale'', scale])"

definition extra_args :: "options \<Rightarrow> bool \<Rightarrow> string list" where
  "extra_args opts is_transparent =
     concat (map (\<lambda>(option, drawio_arg).
                    case options_get opts option of
                      None \<Rightarrow> []
                    | Some v \<Rightarrow> [''--'' @ drawio_arg, str_int v]) OPTIONAL_UNIQUES)
     @ (if is_transparent then [''--transparent''] else [])"

definition drawio_args ::
  "string \<Rightarrow> string \<Rightarrow> string list \<Rightarrow> string list \<Rightarrow> string \<Rightarrow> ppath \<Rightarrow> string \<Rightarrow> bool
   \<Rightarrow> string list" where
  "drawio_args bin page sargs eargs fmt export_path in_filename no_sandbox =
     [bin, ''--export'', ''--crop'', ''--page-index'', page]
     @ sargs @ eargs
     @ [''--format'', fmt, ''--output'', path_str export_path, in_filename]
     @ (if no_sandbox then [''--no-sandbox''] else [])"

subsection \<open>Running draw.io (lines 210 to 229)\<close>

definition new_env :: "host \<Rightarrow> builder \<Rightarrow> environ" where
  "new_env h b =
     (if is_headless h (config b) = Some True
      then (os_environ h)(''DISPLAY'' \<mapsto> display_name)
      else os_environ h)"

definition launch_failure_message :: "string list \<Rightarrow> string \<Rightarrow> string" where
  "launch_failure_message args exc =
     ''draw.io ('' @ join_str '' '' args @ '') exited with error:'' @ nl @ exc"

definition exit_failure_message :: "host \<Rightarrow> string list \<Rightarrow> string \<Rightarrow> string \<Rightarrow> string" where
  "exit_failure_message h args err out =
     ''draw.io ('' @ join_str '' '' args @ '') exited with error:'' @ nl @ ''[stderr]'' @ nl
     @ bytes_str h err @ nl @ ''[stdout]'' @ nl @ bytes_str h out"

definition output_missing_message :: "host \<Rightarrow> string \<Rightarrow> string \<Rightarrow> string" where
  "output_missing_message h err out =
     ''draw.io did not produce an output file:'' @ nl @ ''[stderr]'' @ nl
     @ bytes_str h err @ nl @ ''[stdout]'' @ nl @ bytes_str h out"

definition run_drawio ::
  "host \<Rightarrow> builder \<Rightarrow> string list \<Rightarrow> ppath \<Rightarrow> ppath \<Rightarrow> ppath \<Rightarrow> world
   \<Rightarrow> (error + ppath) \<times> world" where
  "run_drawio h b args export_path input_relpath export_relpath w =
     (let env = new_env h b;
          called = w\<lparr>proc_calls := proc_calls w @ [(args, env)]\<rparr>
      in case subprocess_run h args env (files w) of
           (LaunchFailed exc, fs) \<Rightarrow>
             (Inl (DrawIOError (launch_failure_message args exc)), called)
         | (Completed returncode err out, fs) \<Rightarrow>
             let w' = called\<lparr>files := fs\<rparr> in
             if returncode \<noteq> 0
             then (Inl (DrawIOError (exit_failure_message h args err out)), w')
             else if fs (path_str export_path) = None
             then (Inl (DrawIOError (output_missing_message h err out)), w')
             else (Inr export_path,
                   w'\<lparr>info_log := info_log w' @
                        [''(drawio) '' @ [CHR 0x27] @ path_str input_relpath @ [CHR 0x27]
                         @ '' -> '' @ [CHR 0x27] @ path_str export_relpath @ [CHR 0x27]]\<rparr>))"

subsection \<open>The whole function\<close>

text \<open>
  Line 145 and line 161: the artifact is named by the stem of the source file, given
  the suffix of the output format. \<open>with_suffix\<close> replaces a suffix the stem still has.
\<close>

definition export_filename :: "string \<Rightarrow> string \<Rightarrow> error + ppath" where
  "export_filename in_filename fmt =
     (let input_abspath = Path in_filename;
          input_stem = path_stem input_abspath
      in with_suffix (Path input_stem) (''.'' @ fmt))"

definition drawio_export ::
  "host \<Rightarrow> builder \<Rightarrow> options \<Rightarrow> string \<Rightarrow> string \<Rightarrow> world \<Rightarrow> (error + ppath) \<times> world" where
  "drawio_export h b opts in_filename default_output_format w =
     (let fmt = output_format opts default_output_format in
      case derive_key h b opts in_filename of
        Inl e \<Rightarrow> (Inl e, w)
      | Inr d \<Rightarrow>
          let input_abspath = Path in_filename;
              dir = export_dir b (d_sha_key d);
              w1 = ensuredir dir w
          in case export_filename in_filename fmt of
               Inl e \<Rightarrow> (Inl e, w1)
             | Inr filename \<Rightarrow>
                 let export_path = joinpath dir filename in
                 (case relative_to export_path (Path (srcdir b)) of
                    Inl e \<Rightarrow> (Inl e, w1)
                  | Inr export_relpath \<Rightarrow>
                      (case is_fresh (files w1) export_path input_abspath of
                         Inl e \<Rightarrow> (Inl e, w1)
                       | Inr True \<Rightarrow> (Inr export_path, w1)
                       | Inr False \<Rightarrow>
                           (case scale_args h fmt (d_scale d) of
                              Inl e \<Rightarrow> (Inl e, w1)
                            | Inr sargs \<Rightarrow>
                                run_drawio h b
                                  (drawio_args (binary_path h b) (page_index opts) sargs
                                     (extra_args opts (transparent b opts)) fmt export_path
                                     in_filename (drawio_no_sandbox (config b)))
                                  export_path (d_input_relpath d) export_relpath w1))))"


section \<open>A sample host\<close>

text \<open>
  The examples below run the function on a concrete host. Its tables give what Python
  returns on the values the examples use: \<open>repr\<close> and \<open>float\<close> on five floats, the
  SHA-1 digests of five keys, and \<open>bytes\<close> printed as \<open>b'...'\<close>. Other arguments get
  a fixed answer.
\<close>

definition sample_float_repr :: "pyfloat \<Rightarrow> string" where
  "sample_float_repr x =
     (if x = PyFloat 1 0 then ''1.0''
      else if x = PyFloat 1 (- 1) then ''0.5''
      else if x = PyFloat 3 (- 1) then ''1.5''
      else if x = PyFloat 1 1 then ''2.0''
      else if x = PyFloat 152587890625 16 then ''1e+16''
      else ''nan'')"

definition sample_float_parse :: "string \<Rightarrow> pyfloat option" where
  "sample_float_parse s =
     (if s = ''1.0'' then Some (PyFloat 1 0)
      else if s = ''0.5'' then Some (PyFloat 1 (- 1))
      else if s = ''1.5'' then Some (PyFloat 3 (- 1))
      else if s = ''2.0'' then Some (PyFloat 1 1)
      else if s = ''1e+16'' then Some (PyFloat 152587890625 16)
      else None)"

definition sample_sha1 :: "string \<Rightarrow> string" where
  "sample_sha1 s =
     (if s = ''a.drawio'' @ nl @ ''0'' @ nl @ ''1.0'' @ nl @ ''false'' @ nl @ ''None'' @ nl @ ''None''
      then ''f819339468a4e0ea104455cd3755f227620b3de7''
      else if s = ''a.drawio'' @ nl @ ''0'' @ nl @ ''1e+16'' @ nl @ ''false'' @ nl @ ''None'' @ nl
                  @ ''None''
      then ''3dae6eba8b9cae4702c1d48e909a7407338cbac6''
      else if s = ''a.drawio'' @ nl @ ''0'' @ nl @ ''0.5'' @ nl @ ''false'' @ nl @ ''None'' @ nl
                  @ ''None''
      then ''37d8230c269c584d2907bb50c47f39ed1ab9c3df''
      else if s = ''v1.2.drawio'' @ nl @ ''0'' @ nl @ ''1.0'' @ nl @ ''false'' @ nl @ ''None'' @ nl
                  @ ''None''
      then ''28e330288a27d2ef5e6f9862fd6c39943283627d''
      else if s = ''../etc/passwd'' @ nl @ ''0'' @ nl @ ''1.0'' @ nl @ ''false'' @ nl @ ''None'' @ nl
                  @ ''None''
      then ''1236c053654b2ce21fbb1bc62a679d6960bb6276''
      else ''da39a3ee5e6b4b0d3255bfef95601890afd80709'')"

definition sample_bytes_str :: "string \<Rightarrow> string" where
  "sample_bytes_str bs = ''b'' @ [CHR 0x27] @ bs @ [CHR 0x27]"

text \<open>Four renderers: one that writes the file named after \<open>--output\<close>, and three that fail.\<close>

fun output_arg :: "string list \<Rightarrow> string" where
  "output_arg (a # p # rest) = (if a = ''--output'' then p else output_arg (p # rest))"
| "output_arg _ = ''''"

definition drawio_writes :: "string list \<Rightarrow> environ \<Rightarrow> filesystem \<Rightarrow> run_outcome \<times> filesystem" where
  "drawio_writes args env fs = (Completed 0 [] [], fs(output_arg args \<mapsto> 20))"

definition drawio_silent :: "string list \<Rightarrow> environ \<Rightarrow> filesystem \<Rightarrow> run_outcome \<times> filesystem" where
  "drawio_silent args env fs = (Completed 0 ''no display'' [], fs)"

definition drawio_exits_1 :: "string list \<Rightarrow> environ \<Rightarrow> filesystem \<Rightarrow> run_outcome \<times> filesystem" where
  "drawio_exits_1 args env fs = (Completed 1 ''bad page'' ''exporting'', fs)"

definition drawio_not_installed ::
  "string list \<Rightarrow> environ \<Rightarrow> filesystem \<Rightarrow> run_outcome \<times> filesystem" where
  "drawio_not_installed args env fs = (LaunchFailed ''[Errno 2] No such file or directory'', fs)"

definition sample_host :: host where
  "sample_host =
     \<lparr>platform_system = ''Linux'',
      os_environ = [''DISPLAY'' \<mapsto> '':0''],
      float_repr = sample_float_repr,
      float_parse = sample_float_parse,
      sha1_hexdigest = sample_sha1,
      bytes_str = sample_bytes_str,
      subprocess_run = drawio_writes,
      subprocess_Popen = (\<lambda>args. PopenStarted 4242 None [] [])\<rparr>"

definition sample_config :: sphinx_config where
  "sample_config =
     \<lparr>drawio_default_export_scale = 100,
      drawio_default_transparency = False,
      drawio_binary_path = None,
      drawio_headless = HeadlessStr ''auto'',
      drawio_no_sandbox = False,
      xvfb_pid = None\<rparr>"

definition sample_builder :: builder where
  "sample_builder = \<lparr>config = sample_config, srcdir = ''/docs''\<rparr>"

definition no_options :: options where
  "no_options =
     \<lparr>opt_format = None, opt_page_index = None, opt_transparency = None,
      opt_export_scale = None, opt_export_width = None, opt_export_height = None\<rparr>"

definition sample_world :: world where
  "sample_world =
     \<lparr>files = [''/docs/a.drawio'' \<mapsto> 10], dirs = {}, proc_calls = [], info_log = []\<rparr>"


text \<open>
  The first export of \<open>/docs/a.drawio\<close> as svg with no options, and the world after
  a renderer wrote that artifact at a later time than the source.
\<close>

definition sample_derived :: derived where
  "sample_derived =
     \<lparr>d_scale = ''1.0'',
      d_input_relpath = \<lparr>p_root = '''', p_parts = [''a.drawio'']\<rparr>,
      d_hash_key = ''a.drawio'' @ nl @ ''0'' @ nl @ ''1.0'' @ nl @ ''false'' @ nl @ ''None'' @ nl
                   @ ''None'',
      d_sha_key = ''f819339468a4e0ea104455cd3755f227620b3de7''\<rparr>"

definition sample_artifact :: ppath where
  "sample_artifact =
     \<lparr>p_root = ''/'',
      p_parts = [''docs'', ''.drawio'', ''f819339468a4e0ea104455cd3755f227620b3de7'', ''a.svg'']\<rparr>"

definition cached_world :: world where
  "cached_world =
     sample_world\<lparr>files := (files sample_world)(path_str sample_artifact \<mapsto> 20)\<rparr>"

definition sample_args :: "string list" where
  "sample_args =
     [''/opt/draw.io/drawio'', ''--export'', ''--crop'', ''--page-index'', ''0'', ''--scale'',
      ''1.0'', ''--format'', ''svg'', ''--output'', path_str sample_artifact, ''/docs/a.drawio'']"

definition silent_host :: host where
  "silent_host = sample_host\<lparr>subprocess_run := drawio_silent\<rparr>"

definition failing_host :: host where
  "failing_host = sample_host\<lparr>subprocess_run := drawio_exits_1\<rparr>"

text \<open>A Linux host whose \<open>DISPLAY\<close> variable is set, to the empty string.\<close>

definition empty_display_host :: host where
  "empty_display_host = sample_host\<lparr>os_environ := [''DISPLAY'' \<mapsto> '''']\<rparr>"

section \<open>Where a file lies\<close>

text \<open>
  The spec speaks of a source file that lies outside the source root. Where a file
  lies is read off its components once every \<open>..\<close> step is taken, as
  \<open>os.path.normpath\<close> takes them: a step removes the component before it, a step
  above the root of an absolute path stays at the root, and a relative path keeps the
  steps that lead above its start. A file lies under a root when both have the same
  root and the remaining components of the root begin those of the file.
\<close>

fun collapse_parts :: "bool \<Rightarrow> string list \<Rightarrow> string list \<Rightarrow> string list" where
  "collapse_parts is_abs acc [] = rev acc"
| "collapse_parts is_abs acc (p # ps) =
     (if p = ''..'' then
        (case acc of
           [] \<Rightarrow> if is_abs then collapse_parts is_abs [] ps
                 else collapse_parts is_abs [''..''] ps
         | a # rest \<Rightarrow> if a = ''..'' then collapse_parts is_abs (''..'' # acc) ps
                       else collapse_parts is_abs rest ps)
      else collapse_parts is_abs (p # acc) ps)"

definition lies_under :: "string \<Rightarrow> string \<Rightarrow> bool" where
  "lies_under f root_dir =
     (let p = Path f; r = Path root_dir
      in p_root p = p_root r
         \<and> prefix (collapse_parts (p_root r \<noteq> '''') [] (p_parts r))
                  (collapse_parts (p_root p \<noteq> '''') [] (p_parts p)))"

section \<open>Properties\<close>

subsection \<open>Decimal strings and joined fields\<close>

lemma digit_char_range: "d < 10 \<Longrightarrow> digit_char d \<in> set ''0123456789''"
  unfolding digit_char_def by (rule nth_mem) simp

lemma digit_char_inj: "a < 10 \<Longrightarrow> b < 10 \<Longrightarrow> digit_char a = digit_char b \<Longrightarrow> a = b"
  unfolding digit_char_def
  by (subst (asm) nth_eq_iff_index_eq) simp_all

lemma str_nat_digits: "set (str_nat n) \<subseteq> set ''0123456789''"
proof (induction n rule: str_nat.induct)
  case (1 n)
  show ?case
  proof (cases "n < 10")
    case True
    then show ?thesis using digit_char_range[of n] by (subst str_nat.simps) simp
  next
    case False
    have "n mod 10 < 10" by simp
    then show ?thesis using 1 False digit_char_range[of "n mod 10"]
      by (subst str_nat.simps) simp
  qed
qed

lemma str_nat_nonempty: "str_nat n \<noteq> []"
  by (subst str_nat.simps) simp

lemma str_nat_inj: "str_nat n = str_nat m \<Longrightarrow> n = m"
proof (induction n arbitrary: m rule: str_nat.induct)
  case (1 n)
  show ?case
  proof (cases "n < 10")
    case True
    show ?thesis
    proof (cases "m < 10")
      case mt: True
      from 1(2) True mt have "digit_char n = digit_char m"
        by (simp add: str_nat.simps)
      then show ?thesis using True mt digit_char_inj by blast
    next
      case False
      have "length (str_nat m) \<ge> 2" using False str_nat_nonempty[of "m div 10"]
        by (subst str_nat.simps) (cases "str_nat (m div 10)", auto)
      moreover have "length (str_nat n) = 1" using True by (subst str_nat.simps) simp
      ultimately show ?thesis using 1(2) by simp
    qed
  next
    case False
    show ?thesis
    proof (cases "m < 10")
      case True
      have "length (str_nat n) \<ge> 2" using False str_nat_nonempty[of "n div 10"]
        by (subst str_nat.simps) (cases "str_nat (n div 10)", auto)
      moreover have "length (str_nat m) = 1" using True by (subst str_nat.simps) simp
      ultimately show ?thesis using 1(2) by simp
    next
      case mf: False
      have "str_nat (n div 10) @ [digit_char (n mod 10)] = str_nat (m div 10) @ [digit_char (m mod 10)]"
        using 1(2) False mf by (simp add: str_nat.simps[of n] str_nat.simps[of m])
      then have a: "str_nat (n div 10) = str_nat (m div 10)" and b: "digit_char (n mod 10) = digit_char (m mod 10)"
        by auto
      from 1(1)[OF False a] have "n div 10 = m div 10" .
      moreover from b have "n mod 10 = m mod 10" using digit_char_inj[of "n mod 10" "m mod 10"] by simp
      ultimately show ?thesis by (metis div_mult_mod_eq)
    qed
  qed
qed

lemma split_last_sep:
  assumes "xs @ c # ys = xs' @ c # ys'" "c \<notin> set ys" "c \<notin> set ys'"
  shows "xs = xs' \<and> ys = ys'"
  using assms by (auto simp: append_eq_append_conv2 Cons_eq_append_conv append_eq_Cons_conv)


lemma nl_notin_str_nat: "CHR 0x0A \<notin> set (str_nat n)"
  using str_nat_digits[of n] by auto

lemma nl_notin_str_int: "CHR 0x0A \<notin> set (str_int i)"
  by (simp add: str_int_def nl_notin_str_nat)

lemma str_nat_hd_digit: "hd (str_nat n) \<in> set ''0123456789''"
  using str_nat_digits[of n] str_nat_nonempty[of n] hd_in_set by blast

lemma str_int_inj: "str_int i = str_int j \<Longrightarrow> i = j"
proof -
  assume eq: "str_int i = str_int j"
  have neg: "\<And>a b. str_nat a \<noteq> CHR ''-'' # str_nat b"
  proof
    fix a b assume "str_nat a = CHR ''-'' # str_nat b"
    then have "hd (str_nat a) = CHR ''-''" by simp
    then show False using str_nat_hd_digit[of a] by auto
  qed
  show ?thesis
  proof (cases "i < 0")
    case True
    show ?thesis
    proof (cases "j < 0")
      case jt: True
      with True eq have "nat (- i) = nat (- j)" by (auto simp: str_int_def dest: str_nat_inj)
      with True jt show ?thesis by simp
    next
      case False
      with True eq neg[of "nat j" "nat (- i)"] show ?thesis by (auto simp: str_int_def)
    qed
  next
    case False
    show ?thesis
    proof (cases "j < 0")
      case True
      with False eq neg[of "nat i" "nat (- j)"] show ?thesis by (auto simp: str_int_def)
    next
      case jf: False
      with False eq have "nat i = nat j" by (auto simp: str_int_def dest: str_nat_inj)
      with False jf show ?thesis by simp
    qed
  qed
qed

lemma str_int_not_None: "str_int i \<noteq> ''None''"
proof
  assume a: "str_int i = ''None''"
  show False
  proof (cases "i < 0")
    case True
    with a show False by (simp add: str_int_def)
  next
    case False
    with a have "hd (str_nat (nat i)) = CHR ''N''" by (simp add: str_int_def)
    then show False using str_nat_hd_digit[of "nat i"] by auto
  qed
qed

lemma str_int_option_inj: "str_int_option a = str_int_option b \<Longrightarrow> a = b"
  using str_int_not_None
  by (auto simp: str_int_option_def split: option.splits dest: str_int_inj)

lemma nl_notin_str_int_option: "CHR 0x0A \<notin> set (str_int_option a)"
  by (auto simp: str_int_option_def nl_notin_str_int split: option.splits)

lemma hash_key_shape:
  "join_str nl (unique_values rel page scale tr opts) =
     path_str rel @ nl @ page @ nl @ scale @ nl @ (if tr then ''true'' else ''false'') @ nl
     @ str_int_option (opt_export_height opts) @ nl @ str_int_option (opt_export_width opts)"
  by (simp add: unique_values_def OPTIONAL_UNIQUES_def options_get_def)

lemma six_fields_inj:
  assumes eq: "a1 @ nl @ b1 @ nl @ c1 @ nl @ d1 @ nl @ e1 @ nl @ f1 =
               a2 @ nl @ b2 @ nl @ c2 @ nl @ d2 @ nl @ e2 @ nl @ f2"
    and b: "CHR 0x0A \<notin> set b1" "CHR 0x0A \<notin> set b2"
    and c: "CHR 0x0A \<notin> set c1" "CHR 0x0A \<notin> set c2"
    and d: "CHR 0x0A \<notin> set d1" "CHR 0x0A \<notin> set d2"
    and e: "CHR 0x0A \<notin> set e1" "CHR 0x0A \<notin> set e2"
    and f: "CHR 0x0A \<notin> set f1" "CHR 0x0A \<notin> set f2"
  shows "a1 = a2 \<and> b1 = b2 \<and> c1 = c2 \<and> d1 = d2 \<and> e1 = e2 \<and> f1 = f2"
proof -
  have s5: "(a1 @ nl @ b1 @ nl @ c1 @ nl @ d1 @ nl @ e1) @ CHR 0x0A # f1 =
            (a2 @ nl @ b2 @ nl @ c2 @ nl @ d2 @ nl @ e2) @ CHR 0x0A # f2"
    using eq by (simp add: nl_def)
  from split_last_sep[OF s5 f] have
    r5: "a1 @ nl @ b1 @ nl @ c1 @ nl @ d1 @ nl @ e1 = a2 @ nl @ b2 @ nl @ c2 @ nl @ d2 @ nl @ e2"
    and f12: "f1 = f2" by auto
  have s4: "(a1 @ nl @ b1 @ nl @ c1 @ nl @ d1) @ CHR 0x0A # e1 =
            (a2 @ nl @ b2 @ nl @ c2 @ nl @ d2) @ CHR 0x0A # e2"
    using r5 by (simp add: nl_def)
  from split_last_sep[OF s4 e] have
    r4: "a1 @ nl @ b1 @ nl @ c1 @ nl @ d1 = a2 @ nl @ b2 @ nl @ c2 @ nl @ d2"
    and e12: "e1 = e2" by auto
  have s3: "(a1 @ nl @ b1 @ nl @ c1) @ CHR 0x0A # d1 = (a2 @ nl @ b2 @ nl @ c2) @ CHR 0x0A # d2"
    using r4 by (simp add: nl_def)
  from split_last_sep[OF s3 d] have
    r3: "a1 @ nl @ b1 @ nl @ c1 = a2 @ nl @ b2 @ nl @ c2"
    and d12: "d1 = d2" by auto
  have s2: "(a1 @ nl @ b1) @ CHR 0x0A # c1 = (a2 @ nl @ b2) @ CHR 0x0A # c2"
    using r3 by (simp add: nl_def)
  from split_last_sep[OF s2 c] have r2: "a1 @ nl @ b1 = a2 @ nl @ b2" and c12: "c1 = c2" by auto
  have s1: "a1 @ CHR 0x0A # b1 = a2 @ CHR 0x0A # b2"
    using r2 by (simp add: nl_def)
  from split_last_sep[OF s1 b] have "a1 = a2" "b1 = b2" by auto
  with c12 d12 e12 f12 show ?thesis by simp
qed

lemma derive_key_Inr:
  assumes "derive_key h b opts f = Inr d"
  obtains x rel where "scale_value b opts = Inr x"
    "relative_to (Path f) (Path (srcdir b)) = Inr rel"
    "d_scale d = float_repr h x" "d_input_relpath d = rel"
    "d_hash_key d = join_str nl (unique_values rel (page_index opts) (float_repr h x) (transparent b opts) opts)"
    "d_sha_key d = sha1_hexdigest h (d_hash_key d)"
  using assms unfolding derive_key_def Let_def
  by (auto split: sum.splits)

subsection \<open>The cache key tells requests apart\<close>

text \<open>
  C1 (as stated): the line feed that separates the key fields is taken to occur in no
  field, and requests that differ in scale to have different keys. The scale enters the
  key as \<open>str\<close> of a float: the export scales \<open>10^18\<close> and \<open>10^18 + 1\<close> divide to the
  same float \<open>1e+16\<close>, so the two requests share one key.
\<close>

theorem C1_scale_collision_counterexample:
  "map_sum id d_hash_key
     (derive_key sample_host sample_builder
        (no_options\<lparr>opt_export_scale := Some (10 ^ 18)\<rparr>) ''/docs/a.drawio'')
   = Inr (''a.drawio'' @ nl @ ''0'' @ nl @ ''1e+16'' @ nl @ ''false'' @ nl @ ''None'' @ nl @ ''None'')
   \<and> map_sum id d_hash_key
     (derive_key sample_host sample_builder
        (no_options\<lparr>opt_export_scale := Some (10 ^ 18 + 1)\<rparr>) ''/docs/a.drawio'')
   = Inr (''a.drawio'' @ nl @ ''0'' @ nl @ ''1e+16'' @ nl @ ''false'' @ nl @ ''None'' @ nl @ ''None'')"
  by code_simp

text \<open>
  The path field may hold the delimiter: a source file whose name contains a line feed
  is a legal POSIX name, and its relative path enters the key as it is.
\<close>

lemma delimiter_in_path_field:
  "map_sum id (path_str \<circ> d_input_relpath)
     (derive_key sample_host sample_builder no_options (''/docs/a'' @ nl @ ''b.drawio''))
   = Inr (''a'' @ nl @ ''b.drawio'')"
  by code_simp

text \<open>
  C1 (amended): two requests whose key derivation succeeds, and whose scale strings
  hold no line feed, have different pre-hash strings as soon as they differ in the
  relative path string, the page index, the scale string, the transparency, the height
  or the width. The path may hold line feeds; the five fields after it cannot, which is
  what makes the concatenation unambiguous.
\<close>

theorem C1_hash_key_discriminates:
  assumes d1: "derive_key h1 b1 o1 f1 = Inr d1"
    and d2: "derive_key h2 b2 o2 f2 = Inr d2"
    and s1: "CHR 0x0A \<notin> set (d_scale d1)"
    and s2: "CHR 0x0A \<notin> set (d_scale d2)"
    and differ: "path_str (d_input_relpath d1) \<noteq> path_str (d_input_relpath d2)
       \<or> (case opt_page_index o1 of None \<Rightarrow> 0 | Some n \<Rightarrow> n)
         \<noteq> (case opt_page_index o2 of None \<Rightarrow> 0 | Some n \<Rightarrow> n)
       \<or> d_scale d1 \<noteq> d_scale d2
       \<or> transparent b1 o1 \<noteq> transparent b2 o2
       \<or> opt_export_height o1 \<noteq> opt_export_height o2
       \<or> opt_export_width o1 \<noteq> opt_export_width o2"
  shows "d_hash_key d1 \<noteq> d_hash_key d2"
proof
  assume eq: "d_hash_key d1 = d_hash_key d2"
  from d1 have k1: "d_hash_key d1 = join_str nl (unique_values (d_input_relpath d1)
      (page_index o1) (d_scale d1) (transparent b1 o1) o1)"
    by (auto elim!: derive_key_Inr)
  from d2 have k2: "d_hash_key d2 = join_str nl (unique_values (d_input_relpath d2)
      (page_index o2) (d_scale d2) (transparent b2 o2) o2)"
    by (auto elim!: derive_key_Inr)
  have tf: "\<And>t. CHR 0x0A \<notin> set (if t then ''true'' else ''false'')" by simp
  from eq have "path_str (d_input_relpath d1) @ nl @ page_index o1 @ nl @ d_scale d1 @ nl
        @ (if transparent b1 o1 then ''true'' else ''false'') @ nl
        @ str_int_option (opt_export_height o1) @ nl @ str_int_option (opt_export_width o1)
      = path_str (d_input_relpath d2) @ nl @ page_index o2 @ nl @ d_scale d2 @ nl
        @ (if transparent b2 o2 then ''true'' else ''false'') @ nl
        @ str_int_option (opt_export_height o2) @ nl @ str_int_option (opt_export_width o2)"
    unfolding k1 k2 hash_key_shape .
  from six_fields_inj[OF this _ _ s1 s2 tf tf nl_notin_str_int_option nl_notin_str_int_option
      nl_notin_str_int_option nl_notin_str_int_option]
  have r: "path_str (d_input_relpath d1) = path_str (d_input_relpath d2)"
    "page_index o1 = page_index o2" "d_scale d1 = d_scale d2"
    "(if transparent b1 o1 then ''true'' else ''false'')
       = (if transparent b2 o2 then ''true'' else ''false'')"
    "str_int_option (opt_export_height o1) = str_int_option (opt_export_height o2)"
    "str_int_option (opt_export_width o1) = str_int_option (opt_export_width o2)"
    by (simp_all add: page_index_def nl_notin_str_int)
  from r(2) have "(case opt_page_index o1 of None \<Rightarrow> 0 | Some n \<Rightarrow> n)
         = (case opt_page_index o2 of None \<Rightarrow> 0 | Some n \<Rightarrow> n)"
    unfolding page_index_def by (rule str_int_inj)
  moreover from r(4) have "transparent b1 o1 = transparent b2 o2" by (auto split: if_splits)
  ultimately show False
    using differ r(1,3) str_int_option_inj[OF r(5)] str_int_option_inj[OF r(6)] by simp
qed

theorem C1_hash_key_discriminates_witness:
  "map_sum id d_hash_key (derive_key sample_host sample_builder no_options ''/docs/a.drawio'')
   \<noteq> map_sum id d_hash_key
       (derive_key sample_host sample_builder (no_options\<lparr>opt_export_scale := Some 50\<rparr>)
          ''/docs/a.drawio'')"
proof -
  define d1 where "d1 = \<lparr>d_scale = ''1.0'',
      d_input_relpath = \<lparr>p_root = '''', p_parts = [''a.drawio'']\<rparr>,
      d_hash_key = ''a.drawio'' @ nl @ ''0'' @ nl @ ''1.0'' @ nl @ ''false'' @ nl @ ''None'' @ nl
                   @ ''None'',
      d_sha_key = ''f819339468a4e0ea104455cd3755f227620b3de7''\<rparr>"
  define d2 where "d2 = \<lparr>d_scale = ''0.5'',
      d_input_relpath = \<lparr>p_root = '''', p_parts = [''a.drawio'']\<rparr>,
      d_hash_key = ''a.drawio'' @ nl @ ''0'' @ nl @ ''0.5'' @ nl @ ''false'' @ nl @ ''None'' @ nl
                   @ ''None'',
      d_sha_key = ''37d8230c269c584d2907bb50c47f39ed1ab9c3df''\<rparr>"
  have a: "derive_key sample_host sample_builder no_options ''/docs/a.drawio'' = Inr d1"
    unfolding d1_def by code_simp
  have b: "derive_key sample_host sample_builder (no_options\<lparr>opt_export_scale := Some 50\<rparr>)
             ''/docs/a.drawio'' = Inr d2"
    unfolding d2_def by code_simp
  have c1: "CHR 0x0A \<notin> set (d_scale d1)" by (simp add: d1_def)
  have c2: "CHR 0x0A \<notin> set (d_scale d2)" by (simp add: d2_def)
  have "d_hash_key d1 \<noteq> d_hash_key d2"
    by (rule C1_hash_key_discriminates[OF a b c1 c2]) (simp add: d1_def d2_def)
  then show ?thesis by (simp add: a b)
qed


subsection \<open>The key does not depend on where the sources are\<close>

lemma split_sep_nonempty: "split_sep s \<noteq> []"
  by (induction s) (auto split: list.splits)

lemma split_sep_append: "split_sep (a @ CHR ''/'' # b) = split_sep a @ split_sep b"
proof (induction a)
  case Nil
  show ?case by simp
next
  case (Cons c cs)
  show ?case
  proof (cases "c = CHR ''/''")
    case True
    with Cons show ?thesis by simp
  next
    case False
    obtain w ws where s: "split_sep cs = w # ws"
      using split_sep_nonempty[of cs] by (cases "split_sep cs") auto
    with Cons False show ?thesis by simp
  qed
qed

lemma parse_root_under:
  assumes "r \<notin> {'''', ''/'', ''//''}"
  shows "parse_root (r @ CHR ''/'' # rel) = parse_root r"
proof (cases r)
  case Nil
  with assms show ?thesis by simp
next
  case c1: (Cons a r1)
  show ?thesis
  proof (cases r1)
    case Nil
    with c1 assms show ?thesis by (auto simp: parse_root_def)
  next
    case c2: (Cons b r2)
    show ?thesis
    proof (cases r2)
      case Nil
      with c1 c2 assms show ?thesis by (auto simp: parse_root_def)
    next
      case (Cons c r3)
      with c1 c2 show ?thesis by (simp add: parse_root_def)
    qed
  qed
qed

lemma relative_to_under:
  assumes "r \<notin> {'''', ''/'', ''//''}"
  shows "relative_to (Path (r @ ''/'' @ rel)) (Path r)
         = Inr \<lparr>p_root = '''', p_parts = filter (\<lambda>p. p \<noteq> '''' \<and> p \<noteq> ''.'') (split_sep rel)\<rparr>"
  using parse_root_under[OF assms, of rel]
  by (simp add: relative_to_def Path_def split_sep_append)

lemma derive_key_relpath_relative:
  "derive_key h b opts f = Inr d \<Longrightarrow> p_root (d_input_relpath d) = ''''"
  by (auto simp: derive_key_def relative_to_def Let_def split: sum.splits if_splits)

text \<open>
  C2: the key is computed from the path below the source root. Two builds whose source
  roots differ, with the same configuration, the same options and the same file below
  the root, derive the same relative path, the same pre-hash string and the same key,
  whatever the platform and the environment of the two processes are. The source root
  is a directory name other than the empty string, \<open>/\<close> and \<open>//\<close>.
\<close>

theorem C2_key_independent_of_build_location:
  assumes r1: "srcdir b1 \<notin> {'''', ''/'', ''//''}"
    and r2: "srcdir b2 \<notin> {'''', ''/'', ''//''}"
    and cfg: "config b1 = config b2"
    and fr: "float_repr h1 = float_repr h2"
    and sh: "sha1_hexdigest h1 = sha1_hexdigest h2"
  shows "derive_key h1 b1 opts (srcdir b1 @ ''/'' @ rel)
         = derive_key h2 b2 opts (srcdir b2 @ ''/'' @ rel)"
  unfolding derive_key_def scale_value_def transparent_def
    relative_to_under[OF r1] relative_to_under[OF r2] cfg fr sh ..

theorem C2_key_independent_of_build_location_witness:
  "derive_key sample_host sample_builder no_options ''/docs/a.drawio''
   = derive_key (sample_host\<lparr>platform_system := ''Darwin'', os_environ := Map.empty\<rparr>)
       (sample_builder\<lparr>srcdir := ''/tmp/pytest-0/build''\<rparr>) no_options
       ''/tmp/pytest-0/build/a.drawio''"
  using C2_key_independent_of_build_location[of sample_builder
      "sample_builder\<lparr>srcdir := ''/tmp/pytest-0/build''\<rparr>" sample_host
      "sample_host\<lparr>platform_system := ''Darwin'', os_environ := Map.empty\<rparr>"
      no_options "''a.drawio''"]
  by (simp add: sample_builder_def sample_host_def)


subsection \<open>The cache entry and the freshness test\<close>

lemma split_sep_no_slash: "w \<in> set (split_sep s) \<Longrightarrow> CHR ''/'' \<notin> set w"
proof (induction s arbitrary: w)
  case Nil
  then show ?case by simp
next
  case (Cons c cs)
  show ?case
  proof (cases "c = CHR ''/''")
    case True
    with Cons show ?thesis by auto
  next
    case False
    obtain v vs where s: "split_sep cs = v # vs"
      using split_sep_nonempty[of cs] by (cases "split_sep cs") auto
    with Cons False show ?thesis by auto
  qed
qed

lemma Path_parts_no_slash: "w \<in> set (p_parts (Path s)) \<Longrightarrow> CHR ''/'' \<notin> set w"
  by (auto simp: Path_def dest: split_sep_no_slash)

lemma path_name_no_slash: "CHR ''/'' \<notin> set (path_name (Path s))"
  using Path_parts_no_slash[of "last (p_parts (Path s))" s]
  by (auto simp: path_name_def)

lemma path_stem_no_slash: "CHR ''/'' \<notin> set (path_stem (Path s))"
  using path_name_no_slash[of s]
  by (auto simp: path_stem_def Let_def split: option.splits dest: in_set_takeD)

lemma parse_root_no_slash: "CHR ''/'' \<notin> set s \<Longrightarrow> parse_root s = ''''"
  by (cases s) (auto simp: parse_root_def)

lemma split_sep_no_slash_id: "CHR ''/'' \<notin> set s \<Longrightarrow> split_sep s = [s]"
  by (induction s) auto

lemma export_filename_relative:
  assumes "export_filename f fmt = Inr filename"
  shows "p_root filename = ''''"
proof -
  have "p_root (Path (path_stem (Path f))) = ''''"
    using parse_root_no_slash[OF path_stem_no_slash[of f]] by (simp add: Path_def)
  with assms show ?thesis
    by (auto simp: export_filename_def with_suffix_def Let_def split: if_splits)
qed

lemma export_relpath_ok:
  assumes sha: "CHR ''/'' \<notin> set sha"
    and fn: "export_filename f fmt = Inr filename"
  shows "relative_to (joinpath (export_dir b sha) filename) (Path (srcdir b))
         = Inr \<lparr>p_root = '''', p_parts = ''.drawio'' # p_parts (Path sha) @ p_parts filename\<rparr>"
proof -
  have r: "p_root (Path sha) = ''''"
    using parse_root_no_slash[OF sha] by (simp add: Path_def)
  have d: "Path ''.drawio'' = \<lparr>p_root = '''', p_parts = [''.drawio'']\<rparr>"
    by (simp add: Path_def parse_root_def)
  show ?thesis
    using r export_filename_relative[OF fn]
    by (simp add: relative_to_def joinpath_def export_dir_def d)
qed

lemma files_ensuredir [simp]: "files (ensuredir p w) = files w"
  by (simp add: ensuredir_def)

lemma proc_calls_ensuredir [simp]: "proc_calls (ensuredir p w) = proc_calls w"
  by (simp add: ensuredir_def)

lemma run_drawio_calls:
  "proc_calls (snd (run_drawio h b args ep ir er w)) = proc_calls w @ [(args, new_env h b)]"
  by (simp add: run_drawio_def Let_def split: prod.splits run_outcome.splits)

lemma drawio_export_unfold:
  assumes dk: "derive_key h b opts f = Inr d"
    and fn: "export_filename f (output_format opts dflt) = Inr filename"
    and rel: "relative_to (joinpath (export_dir b (d_sha_key d)) filename) (Path (srcdir b)) = Inr rp"
  shows "drawio_export h b opts f dflt w =
     (case is_fresh (files w) (joinpath (export_dir b (d_sha_key d)) filename) (Path f) of
        Inl e \<Rightarrow> (Inl e, ensuredir (export_dir b (d_sha_key d)) w)
      | Inr True \<Rightarrow> (Inr (joinpath (export_dir b (d_sha_key d)) filename),
                      ensuredir (export_dir b (d_sha_key d)) w)
      | Inr False \<Rightarrow>
          (case scale_args h (output_format opts dflt) (d_scale d) of
             Inl e \<Rightarrow> (Inl e, ensuredir (export_dir b (d_sha_key d)) w)
           | Inr sargs \<Rightarrow>
               run_drawio h b
                 (drawio_args (binary_path h b) (page_index opts) sargs
                    (extra_args opts (transparent b opts)) (output_format opts dflt)
                    (joinpath (export_dir b (d_sha_key d)) filename) f
                    (drawio_no_sandbox (config b)))
                 (joinpath (export_dir b (d_sha_key d)) filename) (d_input_relpath d) rp
                 (ensuredir (export_dir b (d_sha_key d)) w)))"
  by (simp add: drawio_export_def Let_def dk fn rel)

text \<open>
  C3: take a request whose key derivation and artifact name succeed, whose source file
  exists with modification time \<open>t_source\<close>, and whose scale argument can be built.
  If the artifact exists with a strictly greater modification time, the function returns
  its path and starts no process. Otherwise (the artifact is missing, or not strictly
  newer) the function calls the renderer, exactly once. So the cached path is returned
  without a renderer call if and only if the artifact exists and is strictly newer.
\<close>

theorem C3_fresh_iff_newer:
  assumes dk: "derive_key h b opts f = Inr d"
    and sha: "CHR ''/'' \<notin> set (d_sha_key d)"
    and fn: "export_filename f (output_format opts dflt) = Inr filename"
    and src: "files w (path_str (Path f)) = Some t_source"
    and sa: "scale_args h (output_format opts dflt) (d_scale d) = Inr sargs"
    and p: "p = joinpath (export_dir b (d_sha_key d)) filename"
    and r: "r = drawio_export h b opts f dflt w"
  shows "((\<exists>t. files w (path_str p) = Some t \<and> t_source < t)
            \<longrightarrow> r = (Inr p, ensuredir (export_dir b (d_sha_key d)) w))
       \<and> (\<not> (\<exists>t. files w (path_str p) = Some t \<and> t_source < t)
            \<longrightarrow> proc_calls (snd r) = proc_calls w @
                  [(drawio_args (binary_path h b) (page_index opts) sargs
                      (extra_args opts (transparent b opts)) (output_format opts dflt) p f
                      (drawio_no_sandbox (config b)), new_env h b)])
       \<and> ((fst r = Inr p \<and> proc_calls (snd r) = proc_calls w)
            \<longleftrightarrow> (\<exists>t. files w (path_str p) = Some t \<and> t_source < t))"
proof -
  note u = drawio_export_unfold[OF dk fn export_relpath_ok[OF sha fn], folded p]
  define fresh where "fresh \<longleftrightarrow> (\<exists>t. files w (path_str p) = Some t \<and> t_source < t)"
  have "(fresh \<longrightarrow> r = (Inr p, ensuredir (export_dir b (d_sha_key d)) w))
       \<and> (\<not> fresh
            \<longrightarrow> proc_calls (snd r) = proc_calls w @
                  [(drawio_args (binary_path h b) (page_index opts) sargs
                      (extra_args opts (transparent b opts)) (output_format opts dflt) p f
                      (drawio_no_sandbox (config b)), new_env h b)])
       \<and> ((fst r = Inr p \<and> proc_calls (snd r) = proc_calls w) \<longleftrightarrow> fresh)"
  proof (cases fresh)
    case True
    then have "is_fresh (files w) p (Path f) = Inr True"
      using src by (auto simp: is_fresh_def fresh_def)
    with True show ?thesis by (simp add: r u)
  next
    case False
    then have "is_fresh (files w) p (Path f) = Inr False"
      using src by (auto simp: is_fresh_def fresh_def split: option.splits)
    with False show ?thesis by (simp add: r u sa run_drawio_calls)
  qed
  then show ?thesis unfolding fresh_def .
qed

theorem C3_fresh_iff_newer_witness:
  "files cached_world (path_str sample_artifact) = Some 20
   \<and> files cached_world ''/docs/a.drawio'' = Some 10
   \<and> drawio_export sample_host sample_builder no_options ''/docs/a.drawio'' ''svg'' cached_world
       = (Inr sample_artifact,
          ensuredir (export_dir sample_builder (d_sha_key sample_derived)) cached_world)
   \<and> files sample_world (path_str sample_artifact) = None
   \<and> proc_calls (snd (drawio_export sample_host sample_builder no_options ''/docs/a.drawio''
                          ''svg'' sample_world))
       = [(sample_args, new_env sample_host sample_builder)]"
proof -
  have dk: "derive_key sample_host sample_builder no_options ''/docs/a.drawio'' = Inr sample_derived"
    by code_simp
  have sha: "CHR ''/'' \<notin> set (d_sha_key sample_derived)"
    by (simp add: sample_derived_def)
  have fn: "export_filename ''/docs/a.drawio'' (output_format no_options ''svg'')
            = Inr \<lparr>p_root = '''', p_parts = [''a.svg'']\<rparr>"
    by code_simp
  have p: "sample_artifact = joinpath (export_dir sample_builder (d_sha_key sample_derived))
             \<lparr>p_root = '''', p_parts = [''a.svg'']\<rparr>"
    by code_simp
  have ps: "path_str (Path ''/docs/a.drawio'') = ''/docs/a.drawio''"
    by code_simp
  have pa: "path_str sample_artifact
            = ''/docs/.drawio/f819339468a4e0ea104455cd3755f227620b3de7/a.svg''"
    by code_simp
  have src1: "files cached_world (path_str (Path ''/docs/a.drawio'')) = Some 10"
    by (simp add: ps pa cached_world_def sample_world_def)
  have src2: "files sample_world (path_str (Path ''/docs/a.drawio'')) = Some 10"
    by (simp add: ps sample_world_def)
  have sa: "scale_args sample_host (output_format no_options ''svg'') (d_scale sample_derived)
            = Inr [''--scale'', ''1.0'']"
    by code_simp
  have hit: "files cached_world (path_str sample_artifact) = Some 20"
    by (simp add: cached_world_def)
  have miss: "files sample_world (path_str sample_artifact) = None"
    by (simp add: pa sample_world_def)
  have args: "drawio_args (binary_path sample_host sample_builder) (page_index no_options)
      [''--scale'', ''1.0''] (extra_args no_options (transparent sample_builder no_options))
      (output_format no_options ''svg'') sample_artifact ''/docs/a.drawio''
      (drawio_no_sandbox (config sample_builder)) = sample_args"
    by code_simp
  from C3_fresh_iff_newer[OF dk sha fn src1 sa p refl] hit
  have one: "drawio_export sample_host sample_builder no_options ''/docs/a.drawio'' ''svg''
      cached_world
    = (Inr sample_artifact,
       ensuredir (export_dir sample_builder (d_sha_key sample_derived)) cached_world)"
    by simp
  from C3_fresh_iff_newer[OF dk sha fn src2 sa p refl] miss
  have two: "proc_calls (snd (drawio_export sample_host sample_builder no_options
      ''/docs/a.drawio'' ''svg'' sample_world)) = [(sample_args, new_env sample_host sample_builder)]"
    by (simp add: args sample_world_def)
  from hit src1 one miss two show ?thesis by (simp add: ps)
qed


subsection \<open>Running the renderer\<close>

lemma output_missing_distinct:
  "output_missing_message h err out \<noteq> exit_failure_message h' args err' out'"
  "output_missing_message h err out \<noteq> launch_failure_message args exc"
  by (simp_all add: output_missing_message_def exit_failure_message_def launch_failure_message_def)

lemma output_missing_holds_output:
  "sublist (bytes_str h err) (output_missing_message h err out)"
  "sublist (bytes_str h out) (output_missing_message h err out)"
proof -
  have "output_missing_message h err out =
     (''draw.io did not produce an output file:'' @ nl @ ''[stderr]'' @ nl) @ bytes_str h err
     @ (nl @ ''[stdout]'' @ nl @ bytes_str h out)"
    by (simp add: output_missing_message_def)
  then show "sublist (bytes_str h err) (output_missing_message h err out)"
    by (metis sublist_appendI)
  have "output_missing_message h err out =
     (''draw.io did not produce an output file:'' @ nl @ ''[stderr]'' @ nl @ bytes_str h err
     @ nl @ ''[stdout]'' @ nl) @ bytes_str h out"
    by (simp add: output_missing_message_def)
  then show "sublist (bytes_str h out) (output_missing_message h err out)"
    by (metis sublist_append_leftI)
qed

lemma exit_failure_holds:
  "sublist (join_str '' '' args) (exit_failure_message h args err out)"
  "sublist (bytes_str h err) (exit_failure_message h args err out)"
  "sublist (bytes_str h out) (exit_failure_message h args err out)"
proof -
  have "exit_failure_message h args err out =
     ''draw.io ('' @ join_str '' '' args @ ('') exited with error:'' @ nl @ ''[stderr]'' @ nl
     @ bytes_str h err @ nl @ ''[stdout]'' @ nl @ bytes_str h out)"
    by (simp add: exit_failure_message_def)
  then show "sublist (join_str '' '' args) (exit_failure_message h args err out)"
    by (metis sublist_appendI)
  have "exit_failure_message h args err out =
     (''draw.io ('' @ join_str '' '' args @ '') exited with error:'' @ nl @ ''[stderr]'' @ nl)
     @ bytes_str h err @ (nl @ ''[stdout]'' @ nl @ bytes_str h out)"
    by (simp add: exit_failure_message_def)
  then show "sublist (bytes_str h err) (exit_failure_message h args err out)"
    by (metis sublist_appendI)
  have "exit_failure_message h args err out =
     (''draw.io ('' @ join_str '' '' args @ '') exited with error:'' @ nl @ ''[stderr]'' @ nl
     @ bytes_str h err @ nl @ ''[stdout]'' @ nl) @ bytes_str h out"
    by (simp add: exit_failure_message_def)
  then show "sublist (bytes_str h out) (exit_failure_message h args err out)"
    by (metis sublist_append_leftI)
qed

lemma launch_failure_holds:
  "sublist (join_str '' '' args) (launch_failure_message args exc)"
  "sublist exc (launch_failure_message args exc)"
proof -
  have "launch_failure_message args exc =
     ''draw.io ('' @ join_str '' '' args @ ('') exited with error:'' @ nl @ exc)"
    by (simp add: launch_failure_message_def)
  then show "sublist (join_str '' '' args) (launch_failure_message args exc)"
    by (metis sublist_appendI)
  have "launch_failure_message args exc =
     (''draw.io ('' @ join_str '' '' args @ '') exited with error:'' @ nl) @ exc"
    by (simp add: launch_failure_message_def)
  then show "sublist exc (launch_failure_message args exc)"
    by (metis sublist_append_leftI)
qed

lemma run_drawio_result:
  "fst (run_drawio h b args ep ir er w) =
     (case subprocess_run h args (new_env h b) (files w) of
        (LaunchFailed exc, fs) \<Rightarrow> Inl (DrawIOError (launch_failure_message args exc))
      | (Completed rc err out, fs) \<Rightarrow>
          if rc \<noteq> 0 then Inl (DrawIOError (exit_failure_message h args err out))
          else if fs (path_str ep) = None
          then Inl (DrawIOError (output_missing_message h err out))
          else Inr ep)"
  by (auto simp: run_drawio_def Let_def split: prod.splits run_outcome.splits)

text \<open>
  C4: the renderer call returns the artifact path exactly when the process completes
  with exit status zero and the target file exists afterwards. When it exits zero and
  the file is absent, the result is the error "draw.io did not produce an output file",
  which carries the captured standard error and standard output and differs from every
  message of a non-zero exit and of a failed launch.
\<close>

theorem C4_success_needs_exit_zero_and_file:
  "((\<exists>p. fst (run_drawio h b args ep ir er w) = Inr p)
      \<longleftrightarrow> (\<exists>err out fs. subprocess_run h args (new_env h b) (files w) = (Completed 0 err out, fs)
                         \<and> fs (path_str ep) \<noteq> None))
   \<and> (\<forall>err out fs.
         subprocess_run h args (new_env h b) (files w) = (Completed 0 err out, fs)
         \<and> fs (path_str ep) = None
         \<longrightarrow> fst (run_drawio h b args ep ir er w)
               = Inl (DrawIOError (output_missing_message h err out))
             \<and> sublist (bytes_str h err) (output_missing_message h err out)
             \<and> sublist (bytes_str h out) (output_missing_message h err out)
             \<and> (\<forall>args' err' out'. output_missing_message h err out
                                    \<noteq> exit_failure_message h args' err' out')
             \<and> (\<forall>args' exc. output_missing_message h err out
                                    \<noteq> launch_failure_message args' exc))"
proof -
  obtain oc fs0 where s: "subprocess_run h args (new_env h b) (files w) = (oc, fs0)"
    by (cases "subprocess_run h args (new_env h b) (files w)")
  show ?thesis
    by (cases oc)
      (auto simp: run_drawio_result s output_missing_distinct output_missing_holds_output)
qed

theorem C4_success_needs_exit_zero_and_file_witness:
  "subprocess_run silent_host sample_args (new_env silent_host sample_builder) (files sample_world)
     = (Completed 0 ''no display'' [], files sample_world)
   \<and> files sample_world (path_str sample_artifact) = None
   \<and> fst (run_drawio silent_host sample_builder sample_args sample_artifact
             (d_input_relpath sample_derived) (d_input_relpath sample_derived) sample_world)
       = Inl (DrawIOError (output_missing_message silent_host ''no display'' []))
   \<and> sublist (bytes_str silent_host ''no display'')
             (output_missing_message silent_host ''no display'' [])"
proof -
  have run: "subprocess_run silent_host sample_args (new_env silent_host sample_builder)
      (files sample_world) = (Completed 0 ''no display'' [], files sample_world)"
    by (simp add: silent_host_def drawio_silent_def)
  have pa: "path_str sample_artifact
            = ''/docs/.drawio/f819339468a4e0ea104455cd3755f227620b3de7/a.svg''"
    by code_simp
  have miss: "files sample_world (path_str sample_artifact) = None"
    by (simp add: pa sample_world_def)
  from C4_success_needs_exit_zero_and_file[of silent_host sample_builder sample_args
      sample_artifact "d_input_relpath sample_derived" "d_input_relpath sample_derived"
      sample_world] run miss
  show ?thesis by blast
qed

text \<open>
  A launch that fails, on the sample request: the message holds the command line and
  the text of the operating-system error.
\<close>

lemma launch_failure_example:
  "fst (drawio_export (sample_host\<lparr>subprocess_run := drawio_not_installed\<rparr>) sample_builder
          no_options ''/docs/a.drawio'' ''svg'' sample_world)
   = Inl (DrawIOError (''draw.io ('' @ join_str '' '' sample_args @ '') exited with error:'' @ nl
                       @ ''[Errno 2] No such file or directory''))"
  by code_simp

text \<open>
  What each of the three errors carries: the two raised in the \<open>except\<close> clauses
  (a failed launch, a non-zero exit) hold the full command line, with the text of the
  operating-system error or the captured output; the one raised for a missing output
  file holds the captured output.
\<close>

lemma failure_messages_carry:
  "(\<forall>exc fs. subprocess_run h args (new_env h b) (files w) = (LaunchFailed exc, fs)
       \<longrightarrow> (\<exists>m. fst (run_drawio h b args ep ir er w) = Inl (DrawIOError m)
                \<and> sublist (join_str '' '' args) m \<and> sublist exc m))
   \<and> (\<forall>rc err out fs. subprocess_run h args (new_env h b) (files w) = (Completed rc err out, fs)
         \<and> rc \<noteq> 0
       \<longrightarrow> (\<exists>m. fst (run_drawio h b args ep ir er w) = Inl (DrawIOError m)
                \<and> sublist (join_str '' '' args) m
                \<and> sublist (bytes_str h err) m \<and> sublist (bytes_str h out) m))
   \<and> (\<forall>err out fs. subprocess_run h args (new_env h b) (files w) = (Completed 0 err out, fs)
         \<and> fs (path_str ep) = None
       \<longrightarrow> (\<exists>m. fst (run_drawio h b args ep ir er w) = Inl (DrawIOError m)
                \<and> sublist (bytes_str h err) m \<and> sublist (bytes_str h out) m))"
  by (auto simp: run_drawio_result launch_failure_holds exit_failure_holds
      output_missing_holds_output)

text \<open>
  C5: every fatal rendering error is to carry the full command line and the captured
  output. The code does not do so for a missing output file. On the sample request,
  with a renderer that exits zero, prints \<open>no display\<close> on standard error and writes
  nothing, the error holds the captured output and no part of the command line, not
  even the binary. On the same request with a renderer that exits with status one,
  the error holds the full command line, as the error of a failed launch does
  (\<open>launch_failure_example\<close>): the raise for the missing file is the one of the three
  that leaves the command line out.
\<close>

theorem C5_output_missing_lacks_command:
  "fst (drawio_export silent_host sample_builder no_options ''/docs/a.drawio'' ''svg'' sample_world)
     = Inl (DrawIOError (output_missing_message silent_host ''no display'' []))
   \<and> map fst (proc_calls (snd (drawio_export silent_host sample_builder no_options
                                   ''/docs/a.drawio'' ''svg'' sample_world)))
     = [sample_args]
   \<and> \<not> sublist (join_str '' '' sample_args)
           (output_missing_message silent_host ''no display'' [])
   \<and> \<not> sublist ''/opt/draw.io/drawio'' (output_missing_message silent_host ''no display'' [])
   \<and> fst (drawio_export failing_host sample_builder no_options ''/docs/a.drawio'' ''svg''
            sample_world)
     = Inl (DrawIOError (exit_failure_message failing_host sample_args ''bad page'' ''exporting''))
   \<and> sublist (join_str '' '' sample_args)
         (exit_failure_message failing_host sample_args ''bad page'' ''exporting'')"
  by code_simp


subsection \<open>The scale argument\<close>

lemma reduce_float_value:
  "reduce_float m e = PyFloat m' e' \<Longrightarrow> m \<noteq> 0 \<Longrightarrow> \<exists>k. e' = e + int k \<and> m = m' * 2 ^ k"
proof (induction m e rule: reduce_float.induct)
  case (1 m e)
  show ?case
  proof (cases "even m")
    case True
    with 1(3) have nz: "m div 2 \<noteq> 0" by auto
    from 1(2) 1(3) True have "reduce_float (m div 2) (e + 1) = PyFloat m' e'"
      by (simp add: reduce_float.simps[of m e])
    from 1(1)[OF 1(3) True this nz] obtain k where k: "e' = e + 1 + int k" "m div 2 = m' * 2 ^ k"
      by auto
    from True k(2) have "m = m' * 2 ^ Suc k" by auto
    with k(1) show ?thesis by (intro exI[of _ "Suc k"]) simp
  next
    case False
    with 1(2) 1(3) have "m' = m" "e' = e" by (simp_all add: reduce_float.simps[of m e])
    then show ?thesis by (intro exI[of _ 0]) simp
  qed
qed

lemma round_half_even_near:
  assumes "0 < q"
  shows "\<bar>2 * (round_half_even p q * q - p)\<bar> \<le> q"
proof -
  have p: "p = (p div q) * q + p mod q" by simp
  have r: "0 \<le> p mod q" "p mod q < q" using assms by simp_all
  have e: "round_half_even p q * q - p =
    (if 2 * (p mod q) < q then - (p mod q)
     else if q < 2 * (p mod q) then q - p mod q
     else if even (p div q) then - (p mod q) else q - p mod q)"
    using p by (auto simp: round_half_even_def Let_def algebra_simps)
  show ?thesis unfolding e using r by auto
qed

lemma round_half_even_nonneg: "0 \<le> p \<Longrightarrow> 0 < q \<Longrightarrow> 0 \<le> round_half_even p q"
  by (auto simp: round_half_even_def Let_def pos_imp_zdiv_nonneg_iff)

lemma bitlen_small: 
  assumes "0 < x" "x < 256"
  shows "bitlen x \<le> 8"
proof -
  from bitlen_bounds[OF assms(1)] assms(2) have "(2::int) ^ nat (bitlen x - 1) < 2 ^ 8" by simp
  then have "nat (bitlen x - 1) < 8" by (rule power_less_imp_less_exp[rotated]) simp
  then show ?thesis by simp
qed

lemma truediv_100_is_one:
  "int_truediv n 100 = Inr float_one \<longleftrightarrow> n = 100"
proof
  have "int_truediv 100 100 = Inr float_one" by code_simp
  moreover assume "n = 100"
  ultimately show "int_truediv n 100 = Inr float_one" by simp
next
  assume a: "int_truediv n 100 = Inr float_one"
  have nz: "n \<noteq> 0" using a by (auto simp: int_truediv_def float_one_def)
  define N where "N = \<bar>n\<bar>"
  define e where "e = float_exponent N 100"
  define m where "m = float_mantissa N 100 e"
  have Npos: "0 < N" using nz by (simp add: N_def)
  have eq: "int_truediv n 100 =
      (if 971 < e \<or> (e = 971 \<and> m = 2 ^ 53) then Inl OverflowError
       else Inr (reduce_float (if n < 0 then - m else m) e))"
    using nz unfolding m_def e_def N_def by (auto simp: int_truediv_def Let_def)
  from a have red: "reduce_float (if 0 \<le> n then m else - m) e = PyFloat 1 0"
    unfolding eq float_one_def by (auto split: if_splits)
  have mnn: "0 \<le> m"
    using Npos by (auto simp: m_def float_mantissa_def scaled_quotient_def intro!: round_half_even_nonneg)
  have mz: "(if 0 \<le> n then m else - m) \<noteq> 0"
  proof
    assume "(if 0 \<le> n then m else - m) = 0"
    then have "reduce_float (if 0 \<le> n then m else - m) e = PyFloat 0 0"
      by (simp add: reduce_float.simps)
    with red show False by simp
  qed
  from reduce_float_value[OF red mz] obtain k where k: "0 = e + int k" "(if 0 \<le> n then m else - m) = 2 ^ k"
    by auto
  have pos: "0 \<le> n"
  proof (rule ccontr)
    assume "\<not> 0 \<le> n"
    with k(2) have "- m = 2 ^ k" by simp
    then have "m < 0" by (smt (verit) zero_less_power)
    with mnn show False by simp
  qed
  with k have mk: "m = 2 ^ k" and ek: "e = - int k" by auto
  have Nn: "N = n" using pos by (simp add: N_def)
  have sq: "scaled_quotient N 100 e = (N * 2 ^ k, 100)"
    by (simp add: scaled_quotient_def ek)
  have "\<bar>2 * (round_half_even (N * 2 ^ k) 100 * 100 - N * 2 ^ k)\<bar> \<le> 100"
    by (rule round_half_even_near) simp
  then have near: "\<bar>2 ^ k * (100 - N)\<bar> \<le> 50"
    using mk by (simp add: m_def float_mantissa_def sq algebra_simps)
  have "\<bar>2 ^ k * (100 - N)\<bar> = 2 ^ k * \<bar>100 - N\<bar>" by (simp add: abs_mult)
  with near have n2: "2 ^ k * \<bar>100 - N\<bar> \<le> 50" by simp
  have "1 * \<bar>100 - N\<bar> \<le> 2 ^ k * \<bar>100 - N\<bar>"
    by (rule mult_right_mono) simp_all
  with n2 have "\<bar>100 - N\<bar> \<le> 50" by simp
  then have "N < 256" by simp
  have b100: "bitlen 100 = 7" by code_simp
  from bitlen_small[OF Npos \<open>N < 256\<close>] have "e \<le> - 51"
    by (auto simp: e_def float_exponent_def Let_def b100 split: prod.splits)
  with ek have "51 \<le> k" by simp
  then have "(2::int) ^ 51 \<le> 2 ^ k" by (rule power_increasing) simp
  then have big: "(64::int) \<le> 2 ^ k" by simp
  have "N = 100"
  proof (rule ccontr)
    assume "N \<noteq> 100"
    then have "1 \<le> \<bar>100 - N\<bar>" by simp
    then have "2 ^ k * 1 \<le> 2 ^ k * \<bar>100 - N\<bar>" by (intro mult_left_mono) simp_all
    with n2 big show False by simp
  qed
  with Nn show "n = 100" by simp
qed

lemma extra_args_head:
  "(extra_args opts tr @ ''--format'' # rest) ! 0 \<noteq> ''--scale''"
  by (cases "opt_export_height opts"; cases "opt_export_width opts"; cases tr)
     (simp_all add: extra_args_def OPTIONAL_UNIQUES_def options_get_def)

text \<open>
  C6: for a request whose scale is the float \<open>x\<close> (and \<open>float\<close> reads back what
  \<open>str\<close> printed), the scale arguments are empty exactly when the output format is
  pdf and \<open>x\<close> is \<open>1.0\<close>; in every other case they are \<open>--scale\<close> and the scale
  string, which then stand right after the page index in the argument vector. The
  scale is \<open>1.0\<close> exactly when the effective export scale is 100.
\<close>

theorem C6_scale_flag:
  assumes sv: "scale_value b opts = Inr x"
    and rt: "float_parse h (float_repr h x) = Some x"
  shows "\<exists>sargs. scale_args h fmt (float_repr h x) = Inr sargs
      \<and> (sargs = [] \<longleftrightarrow> fmt = ''pdf'' \<and> x = float_one)
      \<and> (sargs \<noteq> [] \<longrightarrow> sargs = [''--scale'', float_repr h x])
      \<and> (drawio_args bin page sargs (extra_args opts tr) fmt ep f ns ! 5 = ''--scale''
           \<longleftrightarrow> \<not> (fmt = ''pdf'' \<and> x = float_one))
      \<and> (x = float_one \<longleftrightarrow>
           (case opt_export_scale opts of
              None \<Rightarrow> drawio_default_export_scale (config b)
            | Some s \<Rightarrow> s) = 100)"
proof -
  have one: "x = float_one \<longleftrightarrow>
           (case opt_export_scale opts of
              None \<Rightarrow> drawio_default_export_scale (config b)
            | Some s \<Rightarrow> s) = 100"
  proof -
    have "x = float_one \<longleftrightarrow>
        int_truediv (case opt_export_scale opts of
              None \<Rightarrow> drawio_default_export_scale (config b)
            | Some s \<Rightarrow> s) 100 = Inr float_one"
      using sv unfolding scale_value_def by auto
    then show ?thesis by (simp add: truediv_100_is_one)
  qed
  show ?thesis
  proof (cases "fmt = ''pdf'' \<and> x = float_one")
    case True
    then have "scale_args h fmt (float_repr h x) = Inr []"
      using rt by (simp add: scale_args_def)
    moreover have "drawio_args bin page [] (extra_args opts tr) fmt ep f ns ! 5 \<noteq> ''--scale''"
      using extra_args_head[of opts tr] by (simp add: drawio_args_def)
    ultimately show ?thesis using True one by simp
  next
    case False
    then have "scale_args h fmt (float_repr h x) = Inr [''--scale'', float_repr h x]"
      using rt by (auto simp: scale_args_def)
    moreover have "drawio_args bin page [''--scale'', float_repr h x] (extra_args opts tr) fmt
        ep f ns ! 5 = ''--scale''"
      by (simp add: drawio_args_def)
    ultimately show ?thesis using False one by simp
  qed
qed

theorem C6_scale_flag_witness:
  "scale_value sample_builder no_options = Inr float_one
   \<and> float_parse sample_host (float_repr sample_host float_one) = Some float_one
   \<and> scale_args sample_host ''pdf'' (float_repr sample_host float_one) = Inr []
   \<and> scale_args sample_host ''png'' (float_repr sample_host float_one) = Inr [''--scale'', ''1.0'']"
proof -
  have sv: "scale_value sample_builder no_options = Inr float_one" by code_simp
  have rt: "float_parse sample_host (float_repr sample_host float_one) = Some float_one"
    by code_simp
  have r: "float_repr sample_host float_one = ''1.0''" by code_simp
  from C6_scale_flag[OF sv rt, where fmt = "''pdf''" and bin = "''drawio''" and page = "''0''"
      and tr = False and ep = sample_artifact and f = "''/docs/a.drawio''" and ns = False]
  have a: "scale_args sample_host ''pdf'' (float_repr sample_host float_one) = Inr []"
    by auto
  from C6_scale_flag[OF sv rt, where fmt = "''png''" and bin = "''drawio''" and page = "''0''"
      and tr = False and ep = sample_artifact and f = "''/docs/a.drawio''" and ns = False]
  have b: "scale_args sample_host ''png'' (float_repr sample_host float_one)
           = Inr [''--scale'', ''1.0'']"
    by (auto simp: r)
  from sv rt a b show ?thesis by simp
qed

subsection \<open>A source outside the source root\<close>

lemma collapse_parts_plain:
  "''..'' \<notin> set ps \<Longrightarrow> collapse_parts is_abs acc ps = rev acc @ ps"
  by (induction ps arbitrary: acc) auto

lemma lies_under_plain:
  assumes "''..'' \<notin> set (p_parts (Path f))" "''..'' \<notin> set (p_parts (Path root_dir))"
  shows "lies_under f root_dir
         \<longleftrightarrow> p_root (Path f) = p_root (Path root_dir)
             \<and> prefix (p_parts (Path root_dir)) (p_parts (Path f))"
  using assms by (simp add: lies_under_def Let_def collapse_parts_plain)

lemma scale_value_error: "scale_value b opts = Inl e \<Longrightarrow> e = OverflowError"
  by (auto simp: scale_value_def int_truediv_def Let_def split: if_splits)

text \<open>
  C7 (as stated): every source path that lies outside the source root is taken to be
  rejected with the error of an invalid request. \<open>relative_to\<close> compares components
  and takes no \<open>..\<close> step: the path \<open>/docs/../etc/passwd\<close> lies outside the root
  \<open>/docs\<close>, yet a key is derived from the relative path \<open>../etc/passwd\<close> and the
  renderer is called. And for a path outside the root with an export scale too large
  for a float, the error is the \<open>OverflowError\<close> of the division, which comes first.
\<close>

theorem C7_dotdot_leaves_root_counterexample:
  "\<not> lies_under ''/docs/../etc/passwd'' (srcdir sample_builder)
   \<and> map_sum id d_hash_key
       (derive_key sample_host sample_builder no_options ''/docs/../etc/passwd'')
     = Inr (''../etc/passwd'' @ nl @ ''0'' @ nl @ ''1.0'' @ nl @ ''false'' @ nl @ ''None'' @ nl
            @ ''None'')
   \<and> map_sum id path_str
       (fst (drawio_export sample_host sample_builder no_options ''/docs/../etc/passwd'' ''svg''
               sample_world))
     = Inr ''/docs/.drawio/1236c053654b2ce21fbb1bc62a679d6960bb6276/passwd.svg''
   \<and> map fst (proc_calls (snd (drawio_export sample_host sample_builder no_options
                                   ''/docs/../etc/passwd'' ''svg'' sample_world)))
     = [[''/opt/draw.io/drawio'', ''--export'', ''--crop'', ''--page-index'', ''0'', ''--scale'',
         ''1.0'', ''--format'', ''svg'', ''--output'',
         ''/docs/.drawio/1236c053654b2ce21fbb1bc62a679d6960bb6276/passwd.svg'',
         ''/docs/../etc/passwd'']]
   \<and> \<not> lies_under ''/etc/passwd'' (srcdir sample_builder)
   \<and> derive_key sample_host sample_builder (no_options\<lparr>opt_export_scale := Some (10 ^ 400)\<rparr>)
       ''/etc/passwd''
     = Inl OverflowError"
  by code_simp

text \<open>
  C7 (amended): take a source path and a source root that hold no \<open>..\<close> component
  (the directive passes paths that \<open>os.path.normpath\<close> has normalised), with the
  source path outside the source root. Then the export fails before it touches the
  world: no key is derived, no directory is made and no process is called. The error
  is the \<open>ValueError\<close> of \<open>relative_to\<close>, the class the option validators raise
  for a malformed value, when the scale division succeeds; when the export scale is too
  large for a float, it is the \<open>OverflowError\<close> of that division.
\<close>

theorem C7_outside_root_rejected:
  assumes nf: "''..'' \<notin> set (p_parts (Path f))"
    and nr: "''..'' \<notin> set (p_parts (Path (srcdir b)))"
    and out: "\<not> lies_under f (srcdir b)"
  shows "(\<forall>x. scale_value b opts = Inr x
            \<longrightarrow> derive_key h b opts f = Inl ValueError
              \<and> drawio_export h b opts f dflt w = (Inl ValueError, w))
       \<and> (\<forall>e. scale_value b opts = Inl e
            \<longrightarrow> e = OverflowError
              \<and> derive_key h b opts f = Inl OverflowError
              \<and> drawio_export h b opts f dflt w = (Inl OverflowError, w))"
proof -
  from out have guard: "\<not> (p_root (Path f) = p_root (Path (srcdir b))
                          \<and> prefix (p_parts (Path (srcdir b))) (p_parts (Path f)))"
    unfolding lies_under_plain[OF nf nr] .
  have a: "\<And>x. scale_value b opts = Inr x \<Longrightarrow> derive_key h b opts f = Inl ValueError"
    using guard by (auto simp: derive_key_def relative_to_def Let_def)
  have b: "\<And>e. scale_value b opts = Inl e \<Longrightarrow> derive_key h b opts f = Inl e"
    by (simp add: derive_key_def)
  have c: "\<And>e. derive_key h b opts f = Inl e \<Longrightarrow> drawio_export h b opts f dflt w = (Inl e, w)"
    by (simp add: drawio_export_def Let_def)
  show ?thesis
    using a b c scale_value_error[of b opts] by blast
qed

theorem C7_outside_root_rejected_witness:
  "''..'' \<notin> set (p_parts (Path ''/etc/passwd''))
   \<and> ''..'' \<notin> set (p_parts (Path (srcdir sample_builder)))
   \<and> \<not> lies_under ''/etc/passwd'' (srcdir sample_builder)
   \<and> scale_value sample_builder no_options = Inr float_one
   \<and> derive_key sample_host sample_builder no_options ''/etc/passwd'' = Inl ValueError
   \<and> drawio_export sample_host sample_builder no_options ''/etc/passwd'' ''svg'' sample_world
       = (Inl ValueError, sample_world)"
proof -
  have nf: "''..'' \<notin> set (p_parts (Path ''/etc/passwd''))" by code_simp
  have nr: "''..'' \<notin> set (p_parts (Path (srcdir sample_builder)))" by code_simp
  have out: "\<not> lies_under ''/etc/passwd'' (srcdir sample_builder)" by code_simp
  have sv: "scale_value sample_builder no_options = Inr float_one" by code_simp
  from C7_outside_root_rejected[OF nf nr out, of no_options sample_host "''svg''" sample_world] sv
  have "derive_key sample_host sample_builder no_options ''/etc/passwd'' = Inl ValueError
     \<and> drawio_export sample_host sample_builder no_options ''/etc/passwd'' ''svg'' sample_world
       = (Inl ValueError, sample_world)"
    by blast
  with nf nr out sv show ?thesis by blast
qed

subsection \<open>The cache entry\<close>

lemma path_name_Path_no_slash:
  "CHR ''/'' \<notin> set s \<Longrightarrow> path_name (Path s) = (if s = '''' \<or> s = ''.'' then '''' else s)"
  by (simp add: Path_def path_name_def split_sep_no_slash_id)

lemma export_filename_last:
  "\<exists>base. (name_suffix (path_stem (Path f)) = '''' \<longrightarrow> base = path_stem (Path f))
        \<and> (\<forall>fmt n. export_filename f fmt = Inr n
               \<longrightarrow> p_parts n \<noteq> [] \<and> last (p_parts n) = base @ ''.'' @ fmt)"
proof (cases "path_name (Path (path_stem (Path f))) = ''''")
  case True
  then have "\<forall>fmt n. export_filename f fmt \<noteq> Inr n"
    by (auto simp: export_filename_def with_suffix_def Let_def)
  then show ?thesis by auto
next
  case False
  note pn = path_name_Path_no_slash[OF path_stem_no_slash[of f]]
  from False have nm: "path_name (Path (path_stem (Path f))) = path_stem (Path f)"
    unfolding pn by (auto split: if_splits)
  let ?name = "path_stem (Path f)"
  let ?base = "if name_suffix ?name = '''' then ?name
               else take (length ?name - length (name_suffix ?name)) ?name"
  have "\<forall>fmt n. export_filename f fmt = Inr n
               \<longrightarrow> p_parts n \<noteq> [] \<and> last (p_parts n) = ?base @ ''.'' @ fmt"
    by (auto simp: export_filename_def with_suffix_def Let_def nm split: if_splits)
  then show ?thesis by (intro exI[of _ ?base]) simp
qed

lemma drawio_export_path:
  assumes "fst (drawio_export h b opts f dflt w) = Inr p"
  shows "\<exists>d n. derive_key h b opts f = Inr d
           \<and> export_filename f (output_format opts dflt) = Inr n
           \<and> p = joinpath (export_dir b (d_sha_key d)) n"
  using assms
  by (auto simp: drawio_export_def Let_def run_drawio_result
      split: sum.splits bool.splits prod.splits run_outcome.splits if_splits)

lemma joinpath_last:
  assumes "p_root n = ''''" "p_parts n \<noteq> []"
  shows "path_name (joinpath d n) = last (p_parts n)"
  using assms by (simp add: joinpath_def path_name_def)

text \<open>
  C8 (as stated): a cache-entry directory is taken to hold exactly one artifact, and
  requests with different artifacts never to share a directory. The output format is
  no part of the key: exporting the sample source as svg and then as png puts both
  artifacts into the one directory of the key.
\<close>

theorem C8_one_directory_two_artifacts_counterexample:
  "fst (drawio_export sample_host sample_builder no_options ''/docs/a.drawio'' ''png''
         (snd (drawio_export sample_host sample_builder no_options ''/docs/a.drawio'' ''svg''
                 sample_world)))
     = Inr \<lparr>p_root = ''/'', p_parts = [''docs'', ''.drawio'',
              ''f819339468a4e0ea104455cd3755f227620b3de7'', ''a.png'']\<rparr>
   \<and> files (snd (drawio_export sample_host sample_builder no_options ''/docs/a.drawio'' ''png''
         (snd (drawio_export sample_host sample_builder no_options ''/docs/a.drawio'' ''svg''
                 sample_world))))
       ''/docs/.drawio/f819339468a4e0ea104455cd3755f227620b3de7/a.svg'' = Some 20
   \<and> files (snd (drawio_export sample_host sample_builder no_options ''/docs/a.drawio'' ''png''
         (snd (drawio_export sample_host sample_builder no_options ''/docs/a.drawio'' ''svg''
                 sample_world))))
       ''/docs/.drawio/f819339468a4e0ea104455cd3755f227620b3de7/a.png'' = Some 20"
  by code_simp

text \<open>
  C8 (amended): the artifact of a successful export is the file of the export
  directory of the key whose name \<open>with_suffix\<close> builds from the source stem; for a
  source whose stem has no suffix of its own, that name is the stem, a dot and the
  output format. Two exports of the same source that return the same path have the
  same output format: within the directory of a key, the file name tells the formats
  apart.
\<close>

theorem C8_artifact_path:
  assumes e1: "fst (drawio_export h b o1 f dflt1 w1) = Inr p1"
    and e2: "fst (drawio_export h b o2 f dflt2 w2) = Inr p2"
  shows "(\<exists>d n. derive_key h b o1 f = Inr d
            \<and> export_filename f (output_format o1 dflt1) = Inr n
            \<and> p1 = joinpath (export_dir b (d_sha_key d)) n)
       \<and> (name_suffix (path_stem (Path f)) = ''''
            \<longrightarrow> path_name p1 = path_stem (Path f) @ ''.'' @ output_format o1 dflt1)
       \<and> (p1 = p2 \<longrightarrow> output_format o1 dflt1 = output_format o2 dflt2)"
proof -
  from drawio_export_path[OF e1] obtain d1 n1 where
    a: "derive_key h b o1 f = Inr d1" "export_filename f (output_format o1 dflt1) = Inr n1"
       "p1 = joinpath (export_dir b (d_sha_key d1)) n1" by blast
  from drawio_export_path[OF e2] obtain d2 n2 where
    b: "derive_key h b o2 f = Inr d2" "export_filename f (output_format o2 dflt2) = Inr n2"
       "p2 = joinpath (export_dir b (d_sha_key d2)) n2" by blast
  from export_filename_last[of f] obtain base where
    plain: "name_suffix (path_stem (Path f)) = '''' \<longrightarrow> base = path_stem (Path f)"
    and lst: "\<And>fmt n. export_filename f fmt = Inr n
               \<Longrightarrow> p_parts n \<noteq> [] \<and> last (p_parts n) = base @ ''.'' @ fmt"
    by blast
  have l1: "path_name p1 = base @ ''.'' @ output_format o1 dflt1"
    using joinpath_last[OF export_filename_relative[OF a(2)]] lst[OF a(2)]
    by (simp add: a(3))
  have l2: "path_name p2 = base @ ''.'' @ output_format o2 dflt2"
    using joinpath_last[OF export_filename_relative[OF b(2)]] lst[OF b(2)]
    by (simp add: b(3))
  have "p1 = p2 \<longrightarrow> output_format o1 dflt1 = output_format o2 dflt2"
    using l1 l2 by auto
  moreover have "name_suffix (path_stem (Path f)) = ''''
            \<longrightarrow> path_name p1 = path_stem (Path f) @ ''.'' @ output_format o1 dflt1"
    using l1 plain by simp
  ultimately show ?thesis using a by blast
qed

theorem C8_artifact_path_witness:
  "fst (drawio_export sample_host sample_builder no_options ''/docs/a.drawio'' ''svg'' sample_world)
     = Inr sample_artifact
   \<and> name_suffix (path_stem (Path ''/docs/a.drawio'')) = ''''
   \<and> path_name sample_artifact = ''a.svg''"
proof -
  have e: "fst (drawio_export sample_host sample_builder no_options ''/docs/a.drawio'' ''svg''
                  sample_world) = Inr sample_artifact"
    by code_simp
  have ns: "name_suffix (path_stem (Path ''/docs/a.drawio'')) = ''''" by code_simp
  have st: "path_stem (Path ''/docs/a.drawio'') @ ''.'' @ output_format no_options ''svg''
            = ''a.svg''"
    by code_simp
  from C8_artifact_path[OF e e] ns have "path_name sample_artifact
      = path_stem (Path ''/docs/a.drawio'') @ ''.'' @ output_format no_options ''svg''"
    by blast
  with e ns st show ?thesis by simp
qed

text \<open>
  A stem that still has a suffix loses it: \<open>v1.2.drawio\<close> is exported to \<open>v1.png\<close>.
\<close>

lemma stem_suffix_replaced:
  "map_sum id path_str (export_filename ''/docs/v1.2.drawio'' ''png'') = Inr ''v1.png''"
  by code_simp

subsection \<open>The headless decision\<close>

text \<open>
  C9 (as stated): under the setting \<open>auto\<close> the decision is taken to be headless
  exactly when the platform is Linux and no display variable is set. On Linux with
  \<open>DISPLAY\<close> set to the empty string the variable is set, and the decision is
  headless all the same: the virtual display is started and \<open>DISPLAY\<close> is overridden.
\<close>

theorem C9_empty_display_counterexample:
  "platform_system empty_display_host = ''Linux''
   \<and> os_environ empty_display_host ''DISPLAY'' = Some ''''
   \<and> drawio_headless (config sample_builder) = HeadlessStr ''auto''
   \<and> is_headless empty_display_host (config sample_builder) = Some True
   \<and> new_env empty_display_host sample_builder ''DISPLAY'' = Some '':1''
   \<and> map fst (proc_calls (snd (snd (on_config_inited empty_display_host (config sample_builder)
                                        sample_world))))
       = [[''Xvfb'', '':1'', ''-screen'', ''0'', ''1280x768x16'']]"
  by code_simp

text \<open>
  C9 (amended): under the setting \<open>auto\<close> the decision is headless exactly when the
  platform is Linux and \<open>DISPLAY\<close> is unset or empty. On any other platform, or with
  a non-empty \<open>DISPLAY\<close>, the decision is non-headless: the start hook calls no
  process and succeeds, and the renderer gets the environment of the process unchanged.
\<close>

theorem C9_auto_headless:
  assumes auto: "drawio_headless (config b) = HeadlessStr ''auto''"
  shows "is_headless h (config b)
         = Some (platform_system h = ''Linux''
                 \<and> (os_environ h ''DISPLAY'' = None \<or> os_environ h ''DISPLAY'' = Some ''''))
       \<and> (\<not> (platform_system h = ''Linux''
                 \<and> (os_environ h ''DISPLAY'' = None \<or> os_environ h ''DISPLAY'' = Some ''''))
           \<longrightarrow> proc_calls (snd (snd (on_config_inited h (config b) w))) = proc_calls w
             \<and> fst (on_config_inited h (config b) w) = Inr ()
             \<and> new_env h b = os_environ h)"
  using auto
  by (auto simp: is_headless_def on_config_inited_def new_env_def split: option.splits)

theorem C9_auto_headless_witness:
  "drawio_headless (config sample_builder) = HeadlessStr ''auto''
   \<and> os_environ sample_host ''DISPLAY'' = Some '':0''
   \<and> is_headless sample_host (config sample_builder) = Some False
   \<and> proc_calls (snd (snd (on_config_inited sample_host (config sample_builder) sample_world)))
       = proc_calls sample_world
   \<and> new_env sample_host sample_builder = os_environ sample_host"
proof -
  have auto: "drawio_headless (config sample_builder) = HeadlessStr ''auto''"
    by (simp add: sample_builder_def sample_config_def)
  have env: "os_environ sample_host ''DISPLAY'' = Some '':0''"
    by (simp add: sample_host_def)
  from C9_auto_headless[OF auto, of sample_host sample_world] env auto
  show ?thesis by simp
qed

subsection \<open>Defaults\<close>

lemma derive_key_cong:
  assumes "scale_value b o1 = scale_value b o2"
    and "page_index o1 = page_index o2"
    and "transparent b o1 = transparent b o2"
    and "opt_export_height o1 = opt_export_height o2"
    and "opt_export_width o1 = opt_export_width o2"
  shows "derive_key h b o1 f = derive_key h b o2 f"
  using assms
  by (auto simp: derive_key_def Let_def unique_values_def options_get_def OPTIONAL_UNIQUES_def
      split: sum.splits)

lemma drawio_export_cong:
  assumes "output_format o1 dflt = output_format o2 dflt"
    and "derive_key h b o1 f = derive_key h b o2 f"
    and "page_index o1 = page_index o2"
    and "extra_args o1 (transparent b o1) = extra_args o2 (transparent b o2)"
  shows "drawio_export h b o1 f dflt w = drawio_export h b o2 f dflt w"
  unfolding drawio_export_def assms ..

text \<open>
  C10: leaving \<open>export-scale\<close> out gives the same derived key and the same run of the
  whole export (the same result, the same renderer call with the same argument vector
  and the same world afterwards) as giving it the default scale of the builder, and
  likewise for \<open>transparency\<close> and the default transparency of the builder.
\<close>

theorem C10_defaults_equal_explicit:
  "derive_key h b (opts\<lparr>opt_export_scale := None\<rparr>) f
     = derive_key h b (opts\<lparr>opt_export_scale := Some (drawio_default_export_scale (config b))\<rparr>) f
   \<and> drawio_export h b (opts\<lparr>opt_export_scale := None\<rparr>) f dflt w
     = drawio_export h b
         (opts\<lparr>opt_export_scale := Some (drawio_default_export_scale (config b))\<rparr>) f dflt w
   \<and> derive_key h b (opts\<lparr>opt_transparency := None\<rparr>) f
     = derive_key h b
         (opts\<lparr>opt_transparency := Some (drawio_default_transparency (config b))\<rparr>) f
   \<and> drawio_export h b (opts\<lparr>opt_transparency := None\<rparr>) f dflt w
     = drawio_export h b
         (opts\<lparr>opt_transparency := Some (drawio_default_transparency (config b))\<rparr>) f dflt w"
proof -
  have k1: "derive_key h b (opts\<lparr>opt_export_scale := None\<rparr>) f
     = derive_key h b (opts\<lparr>opt_export_scale := Some (drawio_default_export_scale (config b))\<rparr>) f"
    by (rule derive_key_cong) (simp_all add: scale_value_def page_index_def transparent_def)
  have k2: "derive_key h b (opts\<lparr>opt_transparency := None\<rparr>) f
     = derive_key h b
         (opts\<lparr>opt_transparency := Some (drawio_default_transparency (config b))\<rparr>) f"
    by (rule derive_key_cong) (simp_all add: scale_value_def page_index_def transparent_def)
  have e1: "drawio_export h b (opts\<lparr>opt_export_scale := None\<rparr>) f dflt w
     = drawio_export h b
         (opts\<lparr>opt_export_scale := Some (drawio_default_export_scale (config b))\<rparr>) f dflt w"
    by (rule drawio_export_cong[OF _ k1])
       (simp_all add: output_format_def page_index_def extra_args_def options_get_def
          transparent_def OPTIONAL_UNIQUES_def)
  have e2: "drawio_export h b (opts\<lparr>opt_transparency := None\<rparr>) f dflt w
     = drawio_export h b
         (opts\<lparr>opt_transparency := Some (drawio_default_transparency (config b))\<rparr>) f dflt w"
    by (rule drawio_export_cong[OF _ k2])
       (simp_all add: output_format_def page_index_def extra_args_def options_get_def
          transparent_def OPTIONAL_UNIQUES_def)
  from k1 e1 k2 e2 show ?thesis by simp
qed

theorem C10_defaults_equal_explicit_witness:
  "drawio_export sample_host sample_builder no_options ''/docs/a.drawio'' ''svg'' sample_world
   = drawio_export sample_host sample_builder (no_options\<lparr>opt_export_scale := Some 100\<rparr>)
       ''/docs/a.drawio'' ''svg'' sample_world
   \<and> drawio_export sample_host sample_builder no_options ''/docs/a.drawio'' ''svg'' sample_world
   = drawio_export sample_host sample_builder (no_options\<lparr>opt_transparency := Some False\<rparr>)
       ''/docs/a.drawio'' ''svg'' sample_world"
proof -
  have a: "no_options\<lparr>opt_export_scale := None\<rparr> = no_options"
    and b: "no_options\<lparr>opt_transparency := None\<rparr> = no_options"
    by (simp_all add: no_options_def)
  have c: "drawio_default_export_scale (config sample_builder) = 100"
    and d: "drawio_default_transparency (config sample_builder) = False"
    by (simp_all add: sample_builder_def sample_config_def)
  note t = C10_defaults_equal_explicit[of sample_host sample_builder no_options
      "''/docs/a.drawio''" "''svg''" sample_world, unfolded a b c d]
  from t show ?thesis by blast
qed

end
